theory Spec2Isabelle
  imports Main
begin

section \<open>Python values shared by both notebooks\<close>

text \<open>
  Exceptions are values. An exception raised inside an external library is carried
  unchanged as \<open>Raised e\<close>; the other constructors are the built-in exceptions that the
  notebooks' own subscripts and attribute accesses can raise. The notebooks define no
  exception class of their own.
\<close>

datatype 'e py_error = Raised 'e | IndexError | KeyError | AttributeError

text \<open>
  A call into a library returns \<open>Inl e\<close> when it raises \<open>e\<close>; \<open>lib_call\<close> turns the
  result into the exception or value that the calling code sees.
\<close>

definition lib_call :: "'e + 'a \<Rightarrow> 'e py_error + 'a" where
  "lib_call r = (case r of Inl e \<Rightarrow> Inl (Raised e) | Inr v \<Rightarrow> Inr v)"

text \<open>Python's \<open>str(i)\<close> for an integer, as used by an f-string.\<close>

fun digits :: "nat \<Rightarrow> string" where
  "digits n =
     (if n < 10 then [char_of (48 + n)]
      else digits (n div 10) @ [char_of (48 + n mod 10)])"

declare digits.simps [simp del]

definition str_int :: "int \<Rightarrow> string" where
  "str_int i = (if i < 0 then CHR ''-'' # digits (nat (- i)) else digits (nat i))"

section \<open>The fine-tuning notebook\<close>

subsection \<open>Showing one example per label\<close>

record example =
  label :: int
  premise :: string
  hypothesis :: string

definition label_map :: "int \<rightharpoonup> string" where
  "label_map = [0 \<mapsto> ''Entailment'', 1 \<mapsto> ''Neutral'', 2 \<mapsto> ''Contradiction'']"

text \<open>
  The state of the loop in \<open>show_one_example_per_label\<close>: the set \<open>seen_labels\<close>, the
  lines written to standard output so far (one string per \<open>print\<close> call), and the number
  of examples the \<open>for\<close> loop has taken from the subset.
\<close>

record show_state =
  seen_labels :: "int set"
  printed :: "string list"
  visited :: nat

text \<open>The three \<open>print\<close> calls of the loop body.\<close>

definition print_block :: "example \<Rightarrow> string \<Rightarrow> string list" where
  "print_block ex name =
     [ [CHR 0x0A] @ ''Label: '' @ str_int (label ex) @ '' ('' @ name @ '')'',
       ''Premise: '' @ premise ex,
       ''Hypothesis: '' @ hypothesis ex ]"

text \<open>
  The first \<open>if\<close> of the loop body. \<open>label_map[label]\<close> raises \<open>KeyError\<close> on a missing
  key.
\<close>

definition show_body :: "example \<Rightarrow> show_state \<Rightarrow> 'e py_error + show_state" where
  "show_body ex st =
     (let l = label ex in
      if l \<in> set [0, 1, 2] \<and> l \<notin> seen_labels st then
        (case label_map l of
           None \<Rightarrow> Inl KeyError
         | Some name \<Rightarrow>
             Inr (st\<lparr>printed := printed st @ print_block ex name,
                     seen_labels := insert l (seen_labels st)\<rparr>))
      else Inr st)"

text \<open>
  The \<open>for\<close> loop: the body, then the test \<open>len(seen_labels) == 3\<close> that breaks out of
  the loop.
\<close>

fun show_loop :: "example list \<Rightarrow> show_state \<Rightarrow> 'e py_error + show_state" where
  "show_loop [] st = Inr st"
| "show_loop (ex # rest) st =
     (case show_body ex (st\<lparr>visited := Suc (visited st)\<rparr>) of
        Inl e \<Rightarrow> Inl e
      | Inr st' \<Rightarrow> if card (seen_labels st') = 3 then Inr st' else show_loop rest st')"

text \<open>
  \<open>dataset_split.select(range(offset, len(dataset_split)))\<close> is a call into the
  datasets library: \<open>select dataset_split start stop\<close> stands for what
  \<open>dataset_split.select(range(start, stop))\<close> does, which is to return rows or to raise
  (as it does, for example, when \<open>start\<close> is the length of a non-empty split, or
  negative). The offset is a Python integer. The loop runs over the rows returned.
\<close>

definition show_one_example_per_label ::
  "(example list \<Rightarrow> int \<Rightarrow> int \<Rightarrow> 'e + example list) \<Rightarrow> example list \<Rightarrow> int \<Rightarrow>
   'e py_error + show_state" where
  "show_one_example_per_label select dataset_split offset =
     (case lib_call (select dataset_split offset (int (length dataset_split))) of
        Inl e \<Rightarrow> Inl e
      | Inr subset_rows \<Rightarrow> show_loop subset_rows \<lparr>seen_labels = {}, printed = [], visited = 0\<rparr>)"

text \<open>
  Position \<open>i\<close> of a list of examples holds the first example with its label, and the
  label is one of 0, 1, 2.
\<close>

definition first_with_label :: "example list \<Rightarrow> nat \<Rightarrow> bool" where
  "first_with_label xs i \<longleftrightarrow>
     i < length xs \<and> label (xs ! i) \<in> {0, 1, 2} \<and>
     (\<forall>j < i. label (xs ! j) \<noteq> label (xs ! i))"

definition first_positions :: "example list \<Rightarrow> nat list" where
  "first_positions xs = filter (first_with_label xs) [0 ..< length xs]"

definition label_name :: "int \<Rightarrow> string" where
  "label_name l = (case label_map l of Some name \<Rightarrow> name | None \<Rightarrow> [])"

text \<open>The labels carried by the first \<open>n\<close> examples of a list.\<close>

definition labels_upto :: "example list \<Rightarrow> nat \<Rightarrow> int set" where
  "labels_upto xs n = label ` set (take n xs)"

text \<open>What the loop prints for the examples at the given positions, in that order.\<close>

definition blocks :: "example list \<Rightarrow> nat list \<Rightarrow> string list" where
  "blocks xs ps = concat (map (\<lambda>i. print_block (xs ! i) (label_name (label (xs ! i)))) ps)"

text \<open>A small split used to run the function on: seven examples, one unlabelled.\<close>

definition sample_split :: "example list" where
  "sample_split =
     [\<lparr>label = 2, premise = ''p0'', hypothesis = ''h0''\<rparr>,
      \<lparr>label = 2, premise = ''p1'', hypothesis = ''h1''\<rparr>,
      \<lparr>label = 2, premise = ''p2'', hypothesis = ''h2''\<rparr>,
      \<lparr>label = - 1, premise = ''p3'', hypothesis = ''h3''\<rparr>,
      \<lparr>label = 0, premise = ''p4'', hypothesis = ''h4''\<rparr>,
      \<lparr>label = 1, premise = ''p5'', hypothesis = ''h5''\<rparr>,
      \<lparr>label = 1, premise = ''p6'', hypothesis = ''h6''\<rparr>]"

text \<open>
  A \<open>select\<close> to run the function with. It returns the rows of the range when the
  range starts inside the split, and no rows when the split is empty or the range
  starts beyond its end; it raises when the range starts at the end of a non-empty
  split or at a negative position.
\<close>

definition sample_select :: "'a list \<Rightarrow> int \<Rightarrow> int \<Rightarrow> string + 'a list" where
  "sample_select rows start stop =
     (if rows = [] then Inr []
      else if 0 \<le> start \<and> start < int (length rows) then
        Inr (map (\<lambda>i. rows ! i) [nat start ..< nat stop])
      else if start = int (length rows) then Inl ''IndexError''
      else if int (length rows) < start then Inr []
      else if start < - int (length rows) then Inl ''IndexError''
      else Inl ''OverflowError'')"

subsection \<open>Tokenization and downsampling\<close>

text \<open>
  The tokenizer is external: \<open>tokenizer premise hypothesis\<close> stands for the encoding it
  returns for one pair (with \<open>padding="max_length"\<close> and \<open>truncation=True\<close>).
  \<open>preprocess_function\<close> keeps the encoding and stores the example's label under the
  key \<open>labels\<close>; the batched \<open>map\<close> applies it row by row, in order, to every split and
  removes the original columns.
\<close>

record 't tokenized_example =
  encoding :: 't
  labels :: int

definition preprocess_function ::
  "(string \<Rightarrow> string \<Rightarrow> 't) \<Rightarrow> example list \<Rightarrow> 't tokenized_example list" where
  "preprocess_function tokenizer examples =
     map (\<lambda>ex. \<lparr>encoding = tokenizer (premise ex) (hypothesis ex), labels = label ex\<rparr>)
       examples"

definition tokenize_datasets ::
  "(string \<Rightarrow> string \<Rightarrow> 't) \<Rightarrow> (string \<rightharpoonup> example list) \<Rightarrow>
   (string \<rightharpoonup> 't tokenized_example list)" where
  "tokenize_datasets tokenizer dataset =
     (\<lambda>split. map_option (preprocess_function tokenizer) (dataset split))"

text \<open>
  \<open>split.select(range(n))\<close> returns the rows at positions \<open>0, \<dots>, n - 1\<close> and raises
  \<open>IndexError\<close> when a position is out of range.
\<close>

definition select_range :: "nat \<Rightarrow> 'a list \<Rightarrow> 'e py_error + 'a list" where
  "select_range n split =
     (if n \<le> length split then Inr (map (\<lambda>i. split ! i) [0 ..< n]) else Inl IndexError)"

text \<open>Subscripting a dictionary raises \<open>KeyError\<close> on a missing key.\<close>

definition subscript :: "('k \<rightharpoonup> 'v) \<Rightarrow> 'k \<Rightarrow> 'e py_error + 'v" where
  "subscript d k = (case d k of None \<Rightarrow> Inl KeyError | Some v \<Rightarrow> Inr v)"

text \<open>
  The downsampling cell: \<open>train_dataset\<close> and \<open>eval_dataset\<close>, in this order.
\<close>

definition downsample ::
  "(string \<rightharpoonup> 'r list) \<Rightarrow> 'e py_error + ('r list \<times> 'r list)" where
  "downsample tokenized_datasets =
     (case subscript tokenized_datasets ''train'' of
        Inl e \<Rightarrow> Inl e
      | Inr train_split \<Rightarrow>
     (case select_range 50000 train_split of
        Inl e \<Rightarrow> Inl e
      | Inr train_dataset \<Rightarrow>
     (case subscript tokenized_datasets ''validation_matched'' of
        Inl e \<Rightarrow> Inl e
      | Inr validation_split \<Rightarrow>
     (case select_range 4000 validation_split of
        Inl e \<Rightarrow> Inl e
      | Inr eval_dataset \<Rightarrow> Inr (train_dataset, eval_dataset)))))"

subsection \<open>Metric computation\<close>

text \<open>
  The functions \<open>compute_metrics\<close> calls are external: \<open>argmax\<close> is
  \<open>torch.argmax(\<dots>, dim=-1)\<close> on one row of logits, and the three scores are
  scikit-learn's, called with the labels first, the predictions second and the
  averaging mode third. Their results are floating-point numbers, kept abstract
  (type \<open>'r\<close>).
\<close>

record ('l, 'c, 'r) metric_lib =
  argmax :: "'l list \<Rightarrow> 'c"
  f1_score :: "'c list \<Rightarrow> 'c list \<Rightarrow> string \<Rightarrow> 'r"
  precision_score :: "'c list \<Rightarrow> 'c list \<Rightarrow> string \<Rightarrow> 'r"
  recall_score :: "'c list \<Rightarrow> 'c list \<Rightarrow> string \<Rightarrow> 'r"

definition compute_metrics ::
  "('l, 'c, 'r) metric_lib \<Rightarrow> 'l list list \<times> 'c list \<Rightarrow> (string \<rightharpoonup> 'r)" where
  "compute_metrics lib eval_pred =
     (let (predictions, labels) = eval_pred;
          preds = map (argmax lib) predictions;
          f1 = f1_score lib labels preds ''macro'';
          precision = precision_score lib labels preds ''macro'';
          recall = recall_score lib labels preds ''macro''
      in [''f1_score'' \<mapsto> f1, ''precision'' \<mapsto> precision, ''recall'' \<mapsto> recall])"

text \<open>
  Metric functions to run \<open>compute_metrics\<close> on: the argmax is the position of the
  first largest logit, and the three scores are fixed numbers.
\<close>

definition sample_metric_lib :: "(int, nat, nat) metric_lib" where
  "sample_metric_lib =
     \<lparr>argmax = (\<lambda>row. length (takeWhile (\<lambda>x. x \<noteq> Max (set row)) row)),
      f1_score = (\<lambda>y_true y_pred average. 1),
      precision_score = (\<lambda>y_true y_pred average. 2),
      recall_score = (\<lambda>y_true y_pred average. 3)\<rparr>"

subsection \<open>Trainers\<close>

text \<open>
  The keyword arguments of \<open>TrainingArguments\<close> that decide what a trainer evaluates
  and saves; \<open>None\<close> stands for an argument the notebook leaves out. The numeric
  hyperparameters (learning rate, batch sizes, weight decay, number of data-loader
  workers) do not enter any property below and are left out.
\<close>

record training_arguments =
  output_dir :: string
  evaluation_strategy :: "string option"
  save_strategy :: "string option"
  num_train_epochs :: "nat option"
  logging_dir :: "string option"
  load_best_model_at_end :: bool
  report_to :: string

definition training_args_base :: training_arguments where
  "training_args_base =
     \<lparr>output_dir = ''./base_model_eval'',
      evaluation_strategy = Some ''epoch'',
      save_strategy = None,
      num_train_epochs = None,
      logging_dir = None,
      load_best_model_at_end = False,
      report_to = ''none''\<rparr>"

definition training_args :: training_arguments where
  "training_args =
     \<lparr>output_dir = ''./peft_multi_nli_results'',
      evaluation_strategy = Some ''epoch'',
      save_strategy = Some ''epoch'',
      num_train_epochs = Some 12,
      logging_dir = Some ''./logs'',
      load_best_model_at_end = True,
      report_to = ''none''\<rparr>"

text \<open>
  What a \<open>Trainer\<close> is constructed with: its arguments, its datasets, and whether it
  was given \<open>compute_metrics\<close>.
\<close>

record 'r trainer =
  args :: training_arguments
  train_dataset :: "'r list option"
  eval_dataset :: "'r list option"
  with_compute_metrics :: bool

definition trainer_base :: "'r list \<Rightarrow> 'r trainer" where
  "trainer_base eval_rows =
     \<lparr>args = training_args_base, train_dataset = None, eval_dataset = Some eval_rows,
      with_compute_metrics = True\<rparr>"

definition peft_trainer :: "'r list \<Rightarrow> 'r list \<Rightarrow> 'r trainer" where
  "peft_trainer train_rows eval_rows =
     \<lparr>args = training_args, train_dataset = Some train_rows, eval_dataset = Some eval_rows,
      with_compute_metrics = True\<rparr>"

text \<open>
  The two trainers of the notebook, \<open>trainer_base\<close> and \<open>trainer\<close>, built from the
  downsampled datasets.
\<close>

definition notebook_trainers ::
  "(string \<rightharpoonup> 'r list) \<Rightarrow> 'e py_error + ('r trainer \<times> 'r trainer)" where
  "notebook_trainers tokenized_datasets =
     (case downsample tokenized_datasets of
        Inl e \<Rightarrow> Inl e
      | Inr (train_rows, eval_rows) \<Rightarrow>
          Inr (trainer_base eval_rows, peft_trainer train_rows eval_rows))"

text \<open>A dataset to run the downsampling on: splits of identical rows, long enough.\<close>

definition sample_dataset :: "string \<rightharpoonup> example list" where
  "sample_dataset =
     [''train'' \<mapsto> replicate 50001 \<lparr>label = 1, premise = ''p'', hypothesis = ''h''\<rparr>,
      ''validation_matched'' \<mapsto>
         replicate 4000 \<lparr>label = 0, premise = ''q'', hypothesis = ''h''\<rparr>]"

subsection \<open>The notebook as a sequence of library calls\<close>

text \<open>
  The notebook is a straight-line script. \<open>ft_call\<close> lists its calls into libraries
  (and, with \<open>ShowOneExamplePerLabel\<close>, into the function above), with the arguments
  that matter here; \<open>print\<close>, \<open>len\<close>, subscripts and attribute accesses are left out.
  \<open>MakeTrainer\<close>, \<open>Evaluate\<close> and \<open>Train\<close> carry the arguments of the trainer and whether
  it was given \<open>compute_metrics\<close>.
\<close>

datatype ft_call =
    CudaIsAvailable
  | TorchDevice
  | LoadDataset string
  | ShowOneExamplePerLabel string int
  | TokenizerFromPretrained string
  | DatasetMap
  | Select string nat
  | ModelFromPretrained string nat
  | ModelTo
  | ModelParameters
  | MakeTrainingArguments training_arguments
  | MakeTrainer training_arguments bool
  | Evaluate training_arguments bool
  | MakeLoraConfig
  | GetPeftModel
  | PrintTrainableParameters
  | Train training_arguments bool
  | SavePretrained string

text \<open>
  What a trainer does inside \<open>evaluate()\<close> and \<open>train()\<close> is the library's business.
  The library is a parameter: it gives, for the trainer's arguments and for whether the
  trainer holds \<open>compute_metrics\<close>, the sequence of things done inside each of the two
  calls. \<open>ComputeMetrics\<close> is a call of the notebook's \<open>compute_metrics\<close>.
\<close>

datatype trainer_event = TrainEpoch nat | ComputeMetrics | SaveCheckpoint string | LoadBestModel

record trainer_lib =
  evaluate_inside :: "training_arguments \<Rightarrow> bool \<Rightarrow> trainer_event list"
  train_inside :: "training_arguments \<Rightarrow> bool \<Rightarrow> trainer_event list"

text \<open>The events of a run: the notebook's calls, and what happens inside a trainer.\<close>

datatype ft_event = Call ft_call | Inside trainer_event

fun events_of :: "trainer_lib \<Rightarrow> ft_call \<Rightarrow> ft_event list" where
  "events_of lib (Evaluate a metrics) =
     Call (Evaluate a metrics) # map Inside (evaluate_inside lib a metrics)"
| "events_of lib (Train a metrics) =
     Call (Train a metrics) # map Inside (train_inside lib a metrics)"
| "events_of lib call = [Call call]"

text \<open>
  Any call may raise: \<open>raises events call\<close> is the exception the library raises for
  \<open>call\<close> after the events so far, if any. A raising call ends the run with that
  exception; the notebook has no \<open>try\<close> statement.
\<close>

fun exec :: "('v list \<Rightarrow> 'c \<Rightarrow> 'e option) \<Rightarrow> ('c \<Rightarrow> 'v list) \<Rightarrow> 'c list \<Rightarrow> 'v list \<Rightarrow>
    'e py_error + 'v list" where
  "exec raises effect [] events = Inr events"
| "exec raises effect (call # calls) events =
     (case raises events call of
        Some e \<Rightarrow> Inl (Raised e)
      | None \<Rightarrow> exec raises effect calls (events @ effect call))"

text \<open>The code cells, in the order of the notebook.\<close>

definition fine_tuning_cells :: "ft_call list list" where
  "fine_tuning_cells =
     [[CudaIsAvailable],
      [LoadDataset ''multi_nli''],
      [LoadDataset ''multi_nli'', ShowOneExamplePerLabel ''train'' 550],
      [TokenizerFromPretrained ''distilbert-base-uncased''],
      [DatasetMap],
      [Select ''train'' 50000, Select ''validation_matched'' 4000],
      [ModelFromPretrained ''distilbert-base-uncased'' 3, CudaIsAvailable, TorchDevice,
       ModelTo],
      [MakeTrainingArguments training_args_base, MakeTrainer training_args_base True,
       Evaluate training_args_base True],
      [ModelParameters],
      [MakeLoraConfig],
      [GetPeftModel, CudaIsAvailable, TorchDevice, ModelTo, PrintTrainableParameters],
      [MakeTrainingArguments training_args, MakeTrainer training_args True,
       Train training_args True],
      [SavePretrained ''./peft_multi_nli'']]"

definition fine_tuning_notebook ::
  "trainer_lib \<Rightarrow> (ft_event list \<Rightarrow> ft_call \<Rightarrow> 'e option) \<Rightarrow> 'e py_error + ft_event list" where
  "fine_tuning_notebook lib raises =
     exec raises (events_of lib) (concat fine_tuning_cells) []"

text \<open>
  The events of a run in which no call raises: the calls of the cells in order, with
  what the trainer does inside \<open>evaluate()\<close> and inside \<open>train()\<close> right after the
  call.
\<close>

definition run_events :: "trainer_lib \<Rightarrow> ft_event list" where
  "run_events lib =
     map Call
       [CudaIsAvailable, LoadDataset ''multi_nli'', LoadDataset ''multi_nli'',
        ShowOneExamplePerLabel ''train'' 550,
        TokenizerFromPretrained ''distilbert-base-uncased'', DatasetMap,
        Select ''train'' 50000, Select ''validation_matched'' 4000,
        ModelFromPretrained ''distilbert-base-uncased'' 3, CudaIsAvailable, TorchDevice,
        ModelTo, MakeTrainingArguments training_args_base,
        MakeTrainer training_args_base True] @
     Call (Evaluate training_args_base True) #
     map Inside (evaluate_inside lib training_args_base True) @
     map Call
       [ModelParameters, MakeLoraConfig, GetPeftModel, CudaIsAvailable, TorchDevice, ModelTo,
        PrintTrainableParameters, MakeTrainingArguments training_args,
        MakeTrainer training_args True] @
     Call (Train training_args True) #
     map Inside (train_inside lib training_args True) @
     [Call (SavePretrained ''./peft_multi_nli'')]"

text \<open>
  The steps the specification names for this notebook, and the step each call of the
  notebook belongs to. The metric computation is the call of \<open>evaluate()\<close> on a trainer
  that holds \<open>compute_metrics\<close>.
\<close>

datatype ft_phase =
    DataLoading | Tokenization | ModelLoading | AdapterInjection | TrainingLoop
  | MetricComputation | CheckpointSave

fun ft_phase_of :: "ft_call \<Rightarrow> ft_phase option" where
  "ft_phase_of (LoadDataset _) = Some DataLoading"
| "ft_phase_of (TokenizerFromPretrained _) = Some Tokenization"
| "ft_phase_of DatasetMap = Some Tokenization"
| "ft_phase_of (ModelFromPretrained _ _) = Some ModelLoading"
| "ft_phase_of (Evaluate _ metrics) = (if metrics then Some MetricComputation else None)"
| "ft_phase_of GetPeftModel = Some AdapterInjection"
| "ft_phase_of (Train _ _) = Some TrainingLoop"
| "ft_phase_of (SavePretrained _) = Some CheckpointSave"
| "ft_phase_of _ = None"

fun call_of :: "ft_event \<Rightarrow> ft_call option" where
  "call_of (Call call) = Some call"
| "call_of (Inside _) = None"

text \<open>
  The steps of the calls of a run, in order, with immediate repetitions of a step
  merged.
\<close>

definition ft_phases :: "ft_event list \<Rightarrow> ft_phase list" where
  "ft_phases events =
     remdups_adj (List.map_filter ft_phase_of (List.map_filter call_of events))"

text \<open>Every event satisfying \<open>P\<close> comes after every event satisfying \<open>Q\<close>.\<close>

definition all_after :: "('a \<Rightarrow> bool) \<Rightarrow> ('a \<Rightarrow> bool) \<Rightarrow> 'a list \<Rightarrow> bool" where
  "all_after P Q events \<longleftrightarrow>
     (\<forall>i < length events. \<forall>j < length events. P (events ! i) \<and> Q (events ! j) \<longrightarrow> j < i)"

text \<open>
  A trainer to run the notebook with. Its \<open>evaluate()\<close> computes the metrics once, as
  the keys \<open>eval_f1_score\<close>, \<open>eval_precision\<close> and \<open>eval_recall\<close> in the recorded output
  of the baseline evaluation show. Its \<open>train()\<close> runs the epochs asked for, evaluates
  and saves a checkpoint at the end of each, saves one more at the last training step,
  and loads the best model at the end.
\<close>

definition sample_epoch ::
  "training_arguments \<Rightarrow> bool \<Rightarrow> nat \<Rightarrow> nat \<Rightarrow> trainer_event list" where
  "sample_epoch a metrics n k =
     [TrainEpoch k] @ (if k = n then [SaveCheckpoint (output_dir a)] else []) @
     (if metrics then [ComputeMetrics] else []) @ [SaveCheckpoint (output_dir a)]"

definition sample_trainer_lib :: trainer_lib where
  "sample_trainer_lib =
     \<lparr>evaluate_inside = (\<lambda>a metrics. if metrics then [ComputeMetrics] else []),
      train_inside = (\<lambda>a metrics.
        (case num_train_epochs a of
           None \<Rightarrow> []
         | Some n \<Rightarrow> concat (map (sample_epoch a metrics n) [1 ..< Suc n]) @ [LoadBestModel]))\<rparr>"

definition never_raises :: "'v list \<Rightarrow> 'c \<Rightarrow> unit option" where
  "never_raises events call = None"

section \<open>The chatbot notebook\<close>

subsection \<open>The data frame and the documents\<close>

text \<open>
  A row of \<open>data/character_descriptions.csv\<close>, and a row after the cell that adds the
  column \<open>text\<close>. Cells are strings.
\<close>

record character =
  Name :: string
  Description :: string
  Medium :: string
  Setting :: string

record character_text = character +
  "text" :: string

definition add_text_column :: "character list \<Rightarrow> character_text list" where
  "add_text_column df =
     map (\<lambda>row.
       \<lparr>Name = Name row, Description = Description row, Medium = Medium row,
        Setting = Setting row,
        text = Name row @ '': '' @ Description row @ '' ('' @ Medium row @ '', '' @
               Setting row @ '')''\<rparr>) df"

text \<open>
  \<open>DataFrameLoader(df, page_content_column='text').load()\<close>: one document per row, in
  order, whose page content is the row's \<open>text\<close> cell and whose metadata are the other
  columns.
\<close>

record document =
  page_content :: string
  metadata :: "(string \<times> string) list"

definition DataFrameLoader_load :: "character_text list \<Rightarrow> document list" where
  "DataFrameLoader_load df =
     map (\<lambda>row.
       \<lparr>page_content = text row,
        metadata = [(''Name'', Name row), (''Description'', Description row),
                    (''Medium'', Medium row), (''Setting'', Setting row)]\<rparr>) df"

subsection \<open>The external libraries\<close>

text \<open>
  The dictionary passed to \<open>qa_chain.invoke\<close>, with its two keys. A chat history is a
  list of pairs of a question and an answer.
\<close>

record chain_input =
  input_question :: string
  input_chat_history :: "(string \<times> string) list"

text \<open>
  The library calls of the notebook. Library objects (embeddings, vector store, chat
  model, retriever, chain, client) are opaque values of type \<open>'h\<close>; a call returns
  \<open>Inl e\<close> when it raises \<open>e\<close>. A chat completion is represented by the contents of the
  messages of its choices (\<open>None\<close> for a message without content), the result of
  \<open>invoke\<close> by a dictionary from keys to strings. \<open>strip\<close> is Python's \<open>str.strip\<close>.
\<close>

record ('h, 'e) chat_lib =
  read_csv :: "string \<Rightarrow> 'e + character list"
  OpenAIEmbeddings :: "string option \<Rightarrow> string \<Rightarrow> 'e + 'h"
  FAISS_from_documents :: "document list \<Rightarrow> 'h \<Rightarrow> 'e + 'h"
  ChatOpenAI :: "string \<Rightarrow> string option \<Rightarrow> string \<Rightarrow> 'e + 'h"
  as_retriever :: "'h \<Rightarrow> 'e + 'h"
  from_llm :: "'h \<Rightarrow> 'h \<Rightarrow> 'e + 'h"
  invoke :: "'h \<Rightarrow> chain_input \<Rightarrow> 'e + (string \<rightharpoonup> string)"
  OpenAI :: "string option \<Rightarrow> string \<Rightarrow> 'e + 'h"
  completions_create :: "'h \<Rightarrow> string \<Rightarrow> (string \<times> string) list \<Rightarrow> nat \<Rightarrow> 'e + string option list"
  strip :: "string \<Rightarrow> string"

text \<open>
  The events of a run: each library call with the values it is given and the value it
  returns, and each \<open>print\<close>.
\<close>

datatype 'h cb_event =
    ReadCsv string "character list"
  | ConcatText "character list" "character_text list"
  | DisplayHead "character_text list"
  | DisplayShape "character_text list"
  | LoadDocuments "character_text list" "document list"
  | NewEmbeddings 'h
  | BuildVectorStore "document list" 'h 'h
  | NewChatModel 'h
  | AsRetriever 'h 'h
  | BuildChain 'h 'h 'h
  | NewClient 'h
  | ChatCompletion 'h string
  | InvokeChain 'h chain_input
  | Print string

text \<open>
  The state a run threads through: the events so far, and the list object that the
  \<open>def\<close> statement of \<open>chatbot_with_langchain\<close> evaluated once for the default of
  \<open>chat_history\<close>.
\<close>

record 'h cb_state =
  trace :: "'h cb_event list"
  default_chat_history :: "(string \<times> string) list"

definition log_event :: "'h cb_event \<Rightarrow> 'h cb_state \<Rightarrow> 'h cb_state" where
  "log_event ev s = s\<lparr>trace := trace s @ [ev]\<rparr>"

text \<open>
  The module attributes of \<open>openai\<close> that the notebook reads. It assigns \<open>api_base\<close>;
  it never assigns \<open>api_key\<close> (the value of \<open>os.getenv\<close> goes to a variable of its own
  and is not used), so the key is whatever the library holds.
\<close>

definition api_base :: string where
  "api_base = ''https://openai.vocareum.com/v1''"

subsection \<open>The two chatbot functions\<close>

definition chatbot_without_customization ::
  "('h, 'e) chat_lib \<Rightarrow> string option \<Rightarrow> string \<Rightarrow> 'h cb_state \<Rightarrow>
   'e py_error + (string \<times> 'h cb_state)" where
  "chatbot_without_customization lib api_key question s =
     (case lib_call (OpenAI lib api_key api_base) of
        Inl e \<Rightarrow> Inl e
      | Inr client \<Rightarrow>
     (case lib_call (completions_create lib client ''gpt-3.5-turbo''
                       [(''user'', question)] 150) of
        Inl e \<Rightarrow> Inl e
      | Inr choices \<Rightarrow>
     (case choices of
        [] \<Rightarrow> Inl IndexError
      | choice # _ \<Rightarrow>
     (case choice of
        None \<Rightarrow> Inl AttributeError
      | Some content \<Rightarrow>
          Inr (strip lib content,
               log_event (ChatCompletion client question) (log_event (NewClient client) s))))))"

text \<open>The module-level variables that \<open>chatbot_with_langchain\<close> reads.\<close>

record 'h chat_globals =
  chat_model :: 'h
  retriever :: 'h

text \<open>
  \<open>chat_history\<close> is \<open>None\<close> when the caller leaves the argument out; the parameter is
  then bound to the default list object.
\<close>

definition chatbot_with_langchain ::
  "('h, 'e) chat_lib \<Rightarrow> 'h chat_globals \<Rightarrow> string \<Rightarrow> (string \<times> string) list option \<Rightarrow>
   'h cb_state \<Rightarrow> 'e py_error + (string \<times> 'h cb_state)" where
  "chatbot_with_langchain lib g question chat_history s =
     (let history = (case chat_history of None \<Rightarrow> default_chat_history s | Some h \<Rightarrow> h) in
      case lib_call (from_llm lib (chat_model g) (retriever g)) of
        Inl e \<Rightarrow> Inl e
      | Inr qa_chain \<Rightarrow>
     (let submitted = \<lparr>input_question = question, input_chat_history = history\<rparr> in
      case lib_call (invoke lib qa_chain submitted) of
        Inl e \<Rightarrow> Inl e
      | Inr result \<Rightarrow>
     (case subscript result ''answer'' of
        Inl e \<Rightarrow> Inl e
      | Inr answer \<Rightarrow>
          Inr (answer,
               log_event (InvokeChain qa_chain submitted)
                 (log_event (BuildChain (chat_model g) (retriever g) qa_chain) s)))))"

subsection \<open>The notebook\<close>

definition questions :: "string list" where
  "questions =
     [''Who is Jack and what issues is he facing?'',
      ''How is Sarah related to Jack?'',
      ''Who is Alice?'']"

text \<open>The \<open>for\<close> loop of the last cell.\<close>

fun question_loop ::
  "('h, 'e) chat_lib \<Rightarrow> string option \<Rightarrow> 'h chat_globals \<Rightarrow> string list \<Rightarrow> 'h cb_state \<Rightarrow>
   'e py_error + 'h cb_state" where
  "question_loop lib api_key g [] s = Inr s"
| "question_loop lib api_key g (q # qs) s =
     (let s1 = log_event (Print (''Question: '' @ q @ [CHR 0x0A])) s;
          s2 = log_event (Print ''Answer WITHOUT customization:'') s1 in
      case chatbot_without_customization lib api_key q s2 of
        Inl e \<Rightarrow> Inl e
      | Inr (answer, s3) \<Rightarrow>
     (let s4 = log_event (Print answer) s3;
          s5 = log_event (Print ''---'') s4;
          s6 = log_event (Print ''Answer WITH LangChain RAG customization:'') s5 in
      case chatbot_with_langchain lib g q None s6 of
        Inl e \<Rightarrow> Inl e
      | Inr (rag_answer, s7) \<Rightarrow>
     (let s8 = log_event (Print rag_answer) s7;
          s9 = log_event (Print (replicate 80 CHR ''='' @ [CHR 0x0A])) s8 in
      question_loop lib api_key g qs s9)))"

text \<open>
  The cells from the CSV load to the definition of \<open>chatbot_with_langchain\<close>. They
  return the module-level variables the loop needs and the state.
\<close>

definition chatbot_setup ::
  "('h, 'e) chat_lib \<Rightarrow> string option \<Rightarrow> 'e py_error + ('h chat_globals \<times> 'h cb_state)" where
  "chatbot_setup lib api_key =
     (let s0 = \<lparr>trace = [], default_chat_history = []\<rparr> in
      case lib_call (read_csv lib ''data/character_descriptions.csv'') of
        Inl e \<Rightarrow> Inl e
      | Inr csv \<Rightarrow>
     (let df = add_text_column csv;
          s1 = log_event (ConcatText csv df)
                 (log_event (ReadCsv ''data/character_descriptions.csv'' csv) s0);
          s2 = log_event (DisplayShape df) (log_event (DisplayHead df) s1);
          documents = DataFrameLoader_load df;
          s3 = log_event (LoadDocuments df documents) s2 in
      case lib_call (OpenAIEmbeddings lib api_key api_base) of
        Inl e \<Rightarrow> Inl e
      | Inr embeddings \<Rightarrow>
     (case lib_call (FAISS_from_documents lib documents embeddings) of
        Inl e \<Rightarrow> Inl e
      | Inr vectorstore \<Rightarrow>
     (case lib_call (ChatOpenAI lib ''gpt-3.5-turbo'' api_key api_base) of
        Inl e \<Rightarrow> Inl e
      | Inr llm \<Rightarrow>
     (case lib_call (as_retriever lib vectorstore) of
        Inl e \<Rightarrow> Inl e
      | Inr retr \<Rightarrow>
     (case lib_call (from_llm lib llm retr) of
        Inl e \<Rightarrow> Inl e
      | Inr qa_chain \<Rightarrow>
          Inr (\<lparr>chat_model = llm, retriever = retr\<rparr>,
               log_event (BuildChain llm retr qa_chain)
                 (log_event (AsRetriever vectorstore retr)
                   (log_event (NewChatModel llm)
                     (log_event (BuildVectorStore documents embeddings vectorstore)
                       (log_event (NewEmbeddings embeddings) s3)))))))))))"

definition chatbot_notebook ::
  "('h, 'e) chat_lib \<Rightarrow> string option \<Rightarrow> 'e py_error + 'h cb_state" where
  "chatbot_notebook lib api_key =
     (case chatbot_setup lib api_key of
        Inl e \<Rightarrow> Inl e
      | Inr (g, s) \<Rightarrow> question_loop lib api_key g questions s)"

text \<open>The steps the specification names for this notebook.\<close>

datatype cb_phase =
    CsvLoad | TextConcatenation | EmbeddingGeneration | VectorStoreConstruction
  | RetrievalChainConstruction | QuestionAnswering | PrintedComparison

fun cb_phase_of :: "'h cb_event \<Rightarrow> cb_phase option" where
  "cb_phase_of (ReadCsv _ _) = Some CsvLoad"
| "cb_phase_of (ConcatText _ _) = Some TextConcatenation"
| "cb_phase_of (NewEmbeddings _) = Some EmbeddingGeneration"
| "cb_phase_of (BuildVectorStore _ _ _) = Some VectorStoreConstruction"
| "cb_phase_of (NewChatModel _) = Some RetrievalChainConstruction"
| "cb_phase_of (AsRetriever _ _) = Some RetrievalChainConstruction"
| "cb_phase_of (BuildChain _ _ _) = Some RetrievalChainConstruction"
| "cb_phase_of (NewClient _) = Some QuestionAnswering"
| "cb_phase_of (ChatCompletion _ _) = Some QuestionAnswering"
| "cb_phase_of (InvokeChain _ _) = Some QuestionAnswering"
| "cb_phase_of (Print _) = Some PrintedComparison"
| "cb_phase_of _ = None"

definition cb_phases :: "'h cb_event list \<Rightarrow> cb_phase list" where
  "cb_phases events = remdups_adj (List.map_filter cb_phase_of events)"

text \<open>The steps of one pass through the loop, one per event.\<close>

definition per_question_phases :: "cb_phase list" where
  "per_question_phases =
     [PrintedComparison, PrintedComparison, QuestionAnswering, QuestionAnswering,
      PrintedComparison, PrintedComparison, PrintedComparison,
      RetrievalChainConstruction, QuestionAnswering, PrintedComparison, PrintedComparison]"

text \<open>
  The values an event is given and the value it returns, for the values that pass from
  one library call to another.
\<close>

datatype 'h pipeline_value =
    Frame "character list"
  | TextFrame "character_text list"
  | Documents "document list"
  | Object 'h

fun consumed :: "'h cb_event \<Rightarrow> 'h pipeline_value list" where
  "consumed (ConcatText csv _) = [Frame csv]"
| "consumed (DisplayHead df) = [TextFrame df]"
| "consumed (DisplayShape df) = [TextFrame df]"
| "consumed (LoadDocuments df _) = [TextFrame df]"
| "consumed (BuildVectorStore documents embeddings _) = [Documents documents, Object embeddings]"
| "consumed (AsRetriever vectorstore _) = [Object vectorstore]"
| "consumed (BuildChain llm retr _) = [Object llm, Object retr]"
| "consumed (ChatCompletion client _) = [Object client]"
| "consumed (InvokeChain qa_chain _) = [Object qa_chain]"
| "consumed _ = []"

fun produced :: "'h cb_event \<Rightarrow> 'h pipeline_value list" where
  "produced (ReadCsv _ csv) = [Frame csv]"
| "produced (ConcatText _ df) = [TextFrame df]"
| "produced (LoadDocuments _ documents) = [Documents documents]"
| "produced (NewEmbeddings embeddings) = [Object embeddings]"
| "produced (BuildVectorStore _ _ vectorstore) = [Object vectorstore]"
| "produced (NewChatModel llm) = [Object llm]"
| "produced (AsRetriever _ retr) = [Object retr]"
| "produced (BuildChain _ _ qa_chain) = [Object qa_chain]"
| "produced (NewClient client) = [Object client]"
| "produced _ = []"

text \<open>Every event is given only values that earlier events returned.\<close>

fun consumes_earlier :: "'h pipeline_value set \<Rightarrow> 'h cb_event list \<Rightarrow> bool" where
  "consumes_earlier available [] = True"
| "consumes_earlier available (ev # events) =
     (set (consumed ev) \<subseteq> available \<and>
      consumes_earlier (available \<union> set (produced ev)) events)"

text \<open>
  A library to run the notebook on: every call succeeds, objects are numbered, the CSV
  file has two rows, and the models answer with fixed strings.
\<close>

definition sample_csv :: "character list" where
  "sample_csv =
     [\<lparr>Name = ''Emily'', Description = ''An aspiring actress.'', Medium = ''Play'',
       Setting = ''England''\<rparr>,
      \<lparr>Name = ''Jack'', Description = ''A businessman.'', Medium = ''Play'',
       Setting = ''England''\<rparr>]"

definition sample_lib :: "(nat, string) chat_lib" where
  "sample_lib =
     \<lparr>read_csv = (\<lambda>path. Inr sample_csv),
      OpenAIEmbeddings = (\<lambda>key base. Inr 1),
      FAISS_from_documents = (\<lambda>documents embeddings. Inr 2),
      ChatOpenAI = (\<lambda>model key base. Inr 3),
      as_retriever = (\<lambda>vectorstore. Inr 4),
      from_llm = (\<lambda>llm retr. Inr 5),
      invoke = (\<lambda>chain input. Inr [''answer'' \<mapsto> ''grounded'']),
      OpenAI = (\<lambda>key base. Inr 6),
      completions_create = (\<lambda>client model messages max_tokens. Inr [Some '' generic '']),
      strip = (\<lambda>s. filter (\<lambda>c. c \<noteq> CHR '' '') s)\<rparr>"


text \<open>
  Any number of earlier calls of \<open>chatbot_with_langchain\<close>, each with its own question
  and with or without a chat history. A call that raises leaves the state as it was.
\<close>

fun run_calls ::
  "('h, 'e) chat_lib \<Rightarrow> 'h chat_globals \<Rightarrow> (string \<times> (string \<times> string) list option) list \<Rightarrow>
   'h cb_state \<Rightarrow> 'h cb_state" where
  "run_calls lib g [] s = s"
| "run_calls lib g ((question, chat_history) # calls) s =
     (case chatbot_with_langchain lib g question chat_history s of
        Inl e \<Rightarrow> run_calls lib g calls s
      | Inr (answer, s') \<Rightarrow> run_calls lib g calls s')"




section \<open>Properties of the fine-tuning notebook\<close>

subsection \<open>One example per label\<close>

lemma label_map_name:
  "l \<in> {0, 1, 2} \<Longrightarrow> label_map l = Some (label_name l)"
  by (auto simp: label_map_def label_name_def)

lemma three_labels_card:
  "S \<subseteq> {0, 1, 2 :: int} \<Longrightarrow> card S = 3 \<longleftrightarrow> S = {0, 1, 2}"
proof
  assume s: "S \<subseteq> {0, 1, 2 :: int}" and c: "card S = 3"
  have "card {0, 1, 2 :: int} = 3" by simp
  with s c show "S = {0, 1, 2}"
    by (metis card_subset_eq finite.emptyI finite.insertI)
next
  assume "S = {0, 1, 2 :: int}" then show "card S = 3" by simp
qed

lemma labels_take_nth:
  "k \<le> length xs \<Longrightarrow> label ` set (take k xs) = (\<lambda>j. label (xs ! j)) ` {0 ..< k}"
  by (simp add: nth_image [symmetric] image_image)

lemma first_with_label_iff:
  assumes "k < length xs"
  shows "first_with_label xs k \<longleftrightarrow>
     label (xs ! k) \<in> {0, 1, 2} \<and> label (xs ! k) \<notin> label ` set (take k xs)"
proof -
  have "label ` set (take k xs) = (\<lambda>j. label (xs ! j)) ` {0 ..< k}"
    using assms by (simp add: labels_take_nth)
  also have "\<dots> = {l. \<exists>j < k. l = label (xs ! j)}"
    by (auto simp: image_def)
  finally have "label (xs ! k) \<notin> label ` set (take k xs) \<longleftrightarrow>
      (\<forall>j < k. label (xs ! j) \<noteq> label (xs ! k))"
    by (simp only: mem_Collect_eq) metis
  with assms show ?thesis
    by (simp only: first_with_label_def simp_thms)
qed

lemma no_first_after_all_seen:
  assumes "{0, 1, 2} \<subseteq> label ` set (take k xs)"
  shows "filter (first_with_label xs) [k ..< length xs] = []"
proof -
  have "\<not> first_with_label xs i" if "k \<le> i" "i < length xs" for i
  proof
    assume f: "first_with_label xs i"
    then have "label (xs ! i) \<in> label ` set (take k xs)"
      using assms by (auto simp: first_with_label_def)
    then obtain j where "j < k" "j < length xs" "label (xs ! j) = label (xs ! i)"
      by (auto simp: in_set_conv_nth)
    with f that show False by (auto simp: first_with_label_def)
  qed
  then show ?thesis by (auto simp: filter_empty_conv)
qed

lemma labels_take_Suc:
  "k < length xs \<Longrightarrow> label ` set (take (Suc k) xs) = insert (label (xs ! k)) (label ` set (take k xs))"
  by (simp add: take_Suc_conv_app_nth)

lemma labels_take_mono:
  "n \<le> k \<Longrightarrow> label ` set (take n xs) \<subseteq> label ` set (take k xs)"
  by (metis image_mono set_take_subset_set_take)


lemma show_body_first:
  assumes "k < length xs" "first_with_label xs k"
    and "seen_labels st = label ` set (take k xs) \<inter> {0, 1, 2}"
  shows "show_body (xs ! k) st =
     Inr (st\<lparr>printed := printed st @ blocks xs [k],
             seen_labels := insert (label (xs ! k)) (seen_labels st)\<rparr>)"
proof -
  from assms have l: "label (xs ! k) \<in> {0, 1, 2}" "label (xs ! k) \<notin> seen_labels st"
    by (simp_all add: first_with_label_iff)
  then have "label_map (label (xs ! k)) = Some (label_name (label (xs ! k)))"
    by (simp add: label_map_name)
  with l show ?thesis
    by (simp add: show_body_def blocks_def Let_def)
qed

lemma show_body_not_first:
  assumes "k < length xs" "\<not> first_with_label xs k"
    and "seen_labels st = label ` set (take k xs) \<inter> {0, 1, 2}"
  shows "show_body (xs ! k) st = Inr st"
proof -
  from assms have "\<not> (label (xs ! k) \<in> {0, 1, 2} \<and> label (xs ! k) \<notin> seen_labels st)"
    by (simp only: first_with_label_iff) blast
  then show ?thesis
    unfolding show_body_def Let_def by (simp only: list.set if_False)
qed

lemma blocks_append: "blocks xs (ps @ qs) = blocks xs ps @ blocks xs qs"
  by (simp add: blocks_def)

lemma first_positions_split:
  "k \<le> length xs \<Longrightarrow>
   first_positions xs =
     filter (first_with_label xs) [0 ..< k] @ filter (first_with_label xs) [k ..< length xs]"
  unfolding first_positions_def
  by (metis filter_append le_add_diff_inverse upt_add_eq_append zero_le)

lemma show_loop_invariant:
  assumes "k \<le> length xs"
    and "seen_labels st = label ` set (take k xs) \<inter> {0, 1, 2}"
    and "\<not> {0, 1, 2} \<subseteq> label ` set (take k xs)"
    and "visited st = k"
    and "printed st = blocks xs (filter (first_with_label xs) [0 ..< k])"
  shows "\<exists>st'. show_loop (drop k xs) st = Inr st' \<and>
       printed st' = blocks xs (first_positions xs) \<and>
       visited st' \<le> length xs \<and>
       (visited st' < length xs \<longrightarrow> {0, 1, 2} \<subseteq> label ` set (take (visited st') xs)) \<and>
       (\<forall>n < visited st'. \<not> {0, 1, 2} \<subseteq> label ` set (take n xs))"
  using assms
proof (induction "length xs - k" arbitrary: k st)
  case 0
  then have k: "k = length xs" by simp
  have below: "\<not> {0, 1, 2} \<subseteq> label ` set (take n xs)" if "n < k" for n
    using labels_take_mono [of n k xs] that "0.prems"(3) by auto
  show ?case
    using "0.prems" k below by (simp add: first_positions_def)
next
  case (Suc m)
  then have k: "k < length xs" by simp
  let ?ex = "xs ! k"
  let ?st0 = "st\<lparr>visited := Suc k\<rparr>"
  have dropk: "drop k xs = ?ex # drop (Suc k) xs"
    using k by (simp add: Cons_nth_drop_Suc)
  have seen0: "seen_labels ?st0 = label ` set (take k xs) \<inter> {0, 1, 2}"
    using Suc.prems(2) by simp
  have below: "\<not> {0, 1, 2} \<subseteq> label ` set (take n xs)" if "n \<le> k" for n
    using labels_take_mono [of n k xs] that Suc.prems(3) by auto
  show ?case
  proof (cases "first_with_label xs k")
    case True
    let ?st1 = "?st0\<lparr>printed := printed ?st0 @ blocks xs [k],
                      seen_labels := insert (label ?ex) (seen_labels ?st0)\<rparr>"
    have body: "show_body ?ex ?st0 = (Inr ?st1 :: 'a py_error + show_state)"
      using show_body_first [OF k True seen0] .
    have lab: "label ?ex \<in> {0, 1, 2}"
      using True by (simp add: first_with_label_def)
    have seen1: "seen_labels ?st1 = label ` set (take (Suc k) xs) \<inter> {0, 1, 2}"
      using seen0 lab k by (simp add: labels_take_Suc)
    have pr1: "printed ?st1 = blocks xs (filter (first_with_label xs) [0 ..< Suc k])"
      using Suc.prems(5) True by (simp add: blocks_append)
    show ?thesis
    proof (cases "card (seen_labels ?st1) = 3")
      case c3: True
      have "seen_labels ?st1 \<subseteq> {0, 1, 2}" using seen1 by blast
      with c3 have "seen_labels ?st1 = {0, 1, 2}"
        by (simp only: three_labels_card)
      with seen1 have all: "{0, 1, 2} \<subseteq> label ` set (take (Suc k) xs)" by blast
      have "first_positions xs = filter (first_with_label xs) [0 ..< Suc k]"
        using first_positions_split [of "Suc k" xs] k no_first_after_all_seen [OF all]
        by simp
      with pr1 have pr: "printed ?st1 = blocks xs (first_positions xs)" by simp
      have res: "show_loop (drop k xs) st = (Inr ?st1 :: 'a py_error + show_state)"
        using body c3 Suc.prems(4) by (simp add: dropk)
      have vis: "visited ?st1 = Suc k" by simp
      show ?thesis
        apply (rule exI [of _ ?st1])
        using res pr all k below by (simp only: vis) (auto simp: less_Suc_eq_le)
    next
      case c3: False
      have notall: "\<not> {0, 1, 2} \<subseteq> label ` set (take (Suc k) xs)"
      proof
        assume "{0, 1, 2} \<subseteq> label ` set (take (Suc k) xs)"
        with seen1 have "seen_labels ?st1 = {0, 1, 2}" by blast
        then have "card (seen_labels ?st1) = 3" by simp
        with c3 show False by simp
      qed
      have res: "show_loop (drop k xs) st = (show_loop (drop (Suc k) xs) ?st1 :: 'a py_error + show_state)"
        using body c3 Suc.prems(4) by (simp add: dropk)
      have "m = length xs - Suc k" using Suc.hyps(2) by simp
      from Suc.hyps(1) [OF this _ seen1 notall _ pr1] k res
      show ?thesis by simp
    qed
  next
    case False
    have body: "show_body ?ex ?st0 = (Inr ?st0 :: 'a py_error + show_state)"
      using show_body_not_first [OF k False seen0] .
    have "\<not> (label ?ex \<in> {0, 1, 2} \<and> label ?ex \<notin> label ` set (take k xs))"
      using False k by (simp add: first_with_label_iff)
    then have same: "label ` set (take (Suc k) xs) \<inter> {0, 1, 2} = label ` set (take k xs) \<inter> {0, 1, 2}"
      using k by (auto simp: labels_take_Suc)
    with seen0 have seen1: "seen_labels ?st0 = label ` set (take (Suc k) xs) \<inter> {0, 1, 2}"
      by simp
    have notall: "\<not> {0, 1, 2} \<subseteq> label ` set (take (Suc k) xs)"
      using same Suc.prems(3) by blast
    have "seen_labels ?st0 \<noteq> {0, 1, 2}"
      using seen0 Suc.prems(3) by blast
    moreover have "seen_labels ?st0 \<subseteq> {0, 1, 2}" using seen0 by blast
    ultimately have c3: "card (seen_labels ?st0) \<noteq> 3"
      using three_labels_card [of "seen_labels ?st0"] by blast
    have pr1: "printed ?st0 = blocks xs (filter (first_with_label xs) [0 ..< Suc k])"
      using Suc.prems(5) False by simp
    have res: "show_loop (drop k xs) st = (show_loop (drop (Suc k) xs) ?st0 :: 'a py_error + show_state)"
      using body c3 Suc.prems(4) by (simp add: dropk)
    have "m = length xs - Suc k" using Suc.hyps(2) by simp
    from Suc.hyps(1) [OF this _ seen1 notall _ pr1] k res
    show ?thesis by simp
  qed
qed

lemma first_positions_labels:
  "distinct (map (\<lambda>i. label (xs ! i)) (first_positions xs)) \<and>
   (\<lambda>i. label (xs ! i)) ` set (first_positions xs) \<subseteq> {0, 1, 2}"
proof -
  have inj: "inj_on (\<lambda>i. label (xs ! i)) (set (first_positions xs))"
  proof (rule inj_onI)
    fix i j
    assume i: "i \<in> set (first_positions xs)" and j: "j \<in> set (first_positions xs)"
      and eq: "label (xs ! i) = label (xs ! j)"
    from i j have fi: "first_with_label xs i" and fj: "first_with_label xs j"
      by (simp_all add: first_positions_def)
    have "\<not> i < j" using fj eq by (auto simp: first_with_label_def)
    moreover have "\<not> j < i" using fi eq by (auto simp: first_with_label_def)
    ultimately show "i = j" by simp
  qed
  have "distinct (first_positions xs)" by (simp add: first_positions_def)
  with inj have "distinct (map (\<lambda>i. label (xs ! i)) (first_positions xs))"
    by (simp add: distinct_map)
  moreover have "(\<lambda>i. label (xs ! i)) ` set (first_positions xs) \<subseteq> {0, 1, 2}"
    by (auto simp: first_positions_def first_with_label_def)
  ultimately show ?thesis by simp
qed

lemma first_positions_length: "length (first_positions xs) \<le> 3"
proof -
  let ?f = "\<lambda>i. label (xs ! i)"
  have "length (first_positions xs) = length (map ?f (first_positions xs))" by simp
  also have "\<dots> = card (set (map ?f (first_positions xs)))"
    using first_positions_labels [of xs] by (simp only: distinct_card)
  also have "\<dots> \<le> card {0, 1, 2 :: int}"
    using first_positions_labels [of xs] by (intro card_mono) simp_all
  also have "\<dots> = 3" by simp
  finally show ?thesis .
qed

lemma show_loop_result:
  "\<exists>st. (show_loop xs \<lparr>seen_labels = {}, printed = [], visited = 0\<rparr>
            :: 'e py_error + show_state) = Inr st \<and>
     printed st = blocks xs (first_positions xs) \<and>
     visited st \<le> length xs \<and>
     (visited st < length xs \<longrightarrow> {0, 1, 2} \<subseteq> labels_upto xs (visited st)) \<and>
     (\<forall>n < visited st. \<not> {0, 1, 2} \<subseteq> labels_upto xs n)"
proof -
  let ?init = "\<lparr>seen_labels = {}, printed = [], visited = 0\<rparr>"
  have "\<exists>st'. (show_loop (drop 0 xs) ?init :: 'e py_error + show_state) = Inr st' \<and>
       printed st' = blocks xs (first_positions xs) \<and>
       visited st' \<le> length xs \<and>
       (visited st' < length xs \<longrightarrow> {0, 1, 2} \<subseteq> label ` set (take (visited st') xs)) \<and>
       (\<forall>n < visited st'. \<not> {0, 1, 2} \<subseteq> label ` set (take n xs))"
    by (rule show_loop_invariant) (simp_all add: blocks_def)
  then show ?thesis
    unfolding labels_upto_def by simp
qed

text \<open>
  Claim C8. Let \<open>select\<close> return, whenever it returns, the rows of the split from the
  offset on. Then for every dataset split and every offset: when \<open>select\<close> raises,
  \<open>show_one_example_per_label\<close> raises the same exception and has printed nothing;
  when it returns, the function returns, and what it prints is exactly the blocks of
  the positions, among the rows from the offset on, that hold the first example with
  their label, the label being 0, 1 or 2, in order; there are at most three such
  positions and their labels are pairwise different; and the loop stops at the first
  point where all of 0, 1 and 2 have been seen, or at the end of the rows when that
  never happens.
\<close>

theorem show_one_example_per_label_first_per_label:
  assumes "\<And>xs. select dataset_split offset (int (length dataset_split)) = Inr xs \<Longrightarrow>
             xs = drop (nat offset) dataset_split"
  shows
    "(select dataset_split offset (int (length dataset_split)) = Inl e \<longrightarrow>
        show_one_example_per_label select dataset_split offset = Inl (Raised e)) \<and>
     (select dataset_split offset (int (length dataset_split)) = Inr rows \<longrightarrow>
        rows = drop (nat offset) dataset_split \<and>
        (\<exists>st. show_one_example_per_label select dataset_split offset = Inr st \<and>
           printed st = blocks rows (first_positions rows) \<and>
           length (first_positions rows) \<le> 3 \<and>
           distinct (map (\<lambda>i. label (rows ! i)) (first_positions rows)) \<and>
           visited st \<le> length rows \<and>
           (visited st < length rows \<longrightarrow> {0, 1, 2} \<subseteq> labels_upto rows (visited st)) \<and>
           (\<forall>n < visited st. \<not> {0, 1, 2} \<subseteq> labels_upto rows n)))"
proof (intro conjI impI)
  assume "select dataset_split offset (int (length dataset_split)) = Inl e"
  then show "show_one_example_per_label select dataset_split offset = Inl (Raised e)"
    by (simp add: show_one_example_per_label_def lib_call_def)
next
  assume r: "select dataset_split offset (int (length dataset_split)) = Inr rows"
  then show "rows = drop (nat offset) dataset_split"
    by (rule assms)
next
  assume r: "select dataset_split offset (int (length dataset_split)) = Inr rows"
  have run: "show_one_example_per_label select dataset_split offset =
      show_loop rows \<lparr>seen_labels = {}, printed = [], visited = 0\<rparr>"
    using r by (simp add: show_one_example_per_label_def lib_call_def)
  from show_loop_result [of rows] obtain st where
    "(show_loop rows \<lparr>seen_labels = {}, printed = [], visited = 0\<rparr>
        :: 'a py_error + show_state) = Inr st"
    "printed st = blocks rows (first_positions rows)"
    "visited st \<le> length rows"
    "visited st < length rows \<longrightarrow> {0, 1, 2} \<subseteq> labels_upto rows (visited st)"
    "\<forall>n < visited st. \<not> {0, 1, 2} \<subseteq> labels_upto rows n"
    by blast
  with run first_positions_length [of rows] first_positions_labels [of rows]
  show "\<exists>st. show_one_example_per_label select dataset_split offset = Inr st \<and>
           printed st = blocks rows (first_positions rows) \<and>
           length (first_positions rows) \<le> 3 \<and>
           distinct (map (\<lambda>i. label (rows ! i)) (first_positions rows)) \<and>
           visited st \<le> length rows \<and>
           (visited st < length rows \<longrightarrow> {0, 1, 2} \<subseteq> labels_upto rows (visited st)) \<and>
           (\<forall>n < visited st. \<not> {0, 1, 2} \<subseteq> labels_upto rows n)"
    by auto
qed

text \<open>
  On the sample split: with offset 1 the function prints the examples at positions 1,
  4 and 5 of the split and stops after five of the six rows from the offset on; with
  offset 7, the length of the split, \<open>select\<close> raises and so does the function.
\<close>

theorem show_one_example_per_label_first_per_label_witness:
  "(\<exists>st. show_one_example_per_label sample_select sample_split 1 = Inr st \<and>
     printed st =
       [CHR 0x0A # ''Label: 2 (Contradiction)'', ''Premise: p1'', ''Hypothesis: h1'',
        CHR 0x0A # ''Label: 0 (Entailment)'', ''Premise: p4'', ''Hypothesis: h4'',
        CHR 0x0A # ''Label: 1 (Neutral)'', ''Premise: p5'', ''Hypothesis: h5''] \<and>
     visited st = 5) \<and>
   show_one_example_per_label sample_select sample_split 7 = Inl (Raised ''IndexError'')"
proof -
  let ?xs = "drop 1 sample_split"
  have len: "int (length sample_split) = 7" by (simp add: sample_split_def)
  have sel1: "sample_select sample_split 1 (int (length sample_split)) = Inr ?xs"
    unfolding len by (simp add: sample_select_def sample_split_def upt_rec)
  have sel7: "sample_select sample_split 7 (int (length sample_split)) = Inl ''IndexError''"
    unfolding len by (simp add: sample_select_def sample_split_def)
  have h1: "\<And>xs. sample_select sample_split 1 (int (length sample_split)) = Inr xs \<Longrightarrow>
      xs = drop (nat 1) sample_split"
    unfolding sel1 by simp
  have h7: "\<And>xs. sample_select sample_split 7 (int (length sample_split)) = Inr xs \<Longrightarrow>
      xs = drop (nat 7) sample_split"
    unfolding sel7 by simp
  note t1 = show_one_example_per_label_first_per_label
    [of sample_select sample_split 1, OF h1, where rows = ?xs]
  note t7 = show_one_example_per_label_first_per_label
    [of sample_select sample_split 7, OF h7, where e = "''IndexError''"]
  from mp [OF conjunct2 [OF t1] sel1]
  obtain st where run: "show_one_example_per_label sample_select sample_split 1 = Inr st"
    and out: "printed st = blocks ?xs (first_positions ?xs)"
    and bound: "visited st \<le> length ?xs"
    and stop: "visited st < length ?xs \<longrightarrow> {0, 1, 2} \<subseteq> labels_upto ?xs (visited st)"
    and least: "\<forall>n < visited st. \<not> {0, 1, 2} \<subseteq> labels_upto ?xs n"
    by blast
  have pos: "first_positions ?xs = [0, 3, 4]" by code_simp
  have blk: "blocks ?xs [0, 3, 4] =
       [CHR 0x0A # ''Label: 2 (Contradiction)'', ''Premise: p1'', ''Hypothesis: h1'',
        CHR 0x0A # ''Label: 0 (Entailment)'', ''Premise: p4'', ''Hypothesis: h4'',
        CHR 0x0A # ''Label: 1 (Neutral)'', ''Premise: p5'', ''Hypothesis: h5'']"
    by code_simp
  have len6: "length ?xs = 6" by code_simp
  have all5: "{0, 1, 2} \<subseteq> labels_upto ?xs 5" by code_simp
  have not4: "\<not> {0, 1, 2} \<subseteq> labels_upto ?xs 4" by code_simp
  have "\<not> 5 < visited st" using least all5 by blast
  then have le5: "visited st \<le> 5" by simp
  with len6 stop have all: "{0, 1, 2} \<subseteq> labels_upto ?xs (visited st)" by simp
  have "\<not> visited st \<le> 4"
  proof
    assume "visited st \<le> 4"
    then have "labels_upto ?xs (visited st) \<subseteq> labels_upto ?xs 4"
      unfolding labels_upto_def by (rule labels_take_mono)
    with all not4 show False by blast
  qed
  with le5 have "visited st = 5" by simp
  with run out pos blk have "\<exists>st. show_one_example_per_label sample_select sample_split 1 = Inr st \<and>
     printed st =
       [CHR 0x0A # ''Label: 2 (Contradiction)'', ''Premise: p1'', ''Hypothesis: h1'',
        CHR 0x0A # ''Label: 0 (Entailment)'', ''Premise: p4'', ''Hypothesis: h4'',
        CHR 0x0A # ''Label: 1 (Neutral)'', ''Premise: p5'', ''Hypothesis: h5''] \<and>
     visited st = 5"
    by simp
  moreover have "show_one_example_per_label sample_select sample_split 7 =
      Inl (Raised ''IndexError'')"
    by (rule mp [OF conjunct1 [OF t7] sel7])
  ultimately show ?thesis by (rule conjI)
qed

subsection \<open>Metrics and downsampling\<close>

text \<open>
  Claim C1. For every pair of predictions (rows of per-class logits) and labels,
  \<open>compute_metrics\<close> returns a dictionary whose keys are exactly \<open>f1_score\<close>,
  \<open>precision\<close> and \<open>recall\<close>, holding the macro-averaged F1 score, precision and
  recall that the external metric functions return for the labels and the row-wise
  argmax of the predictions.
\<close>

theorem compute_metrics_wraps_external_metrics:
  fixes labels :: "'c list"
  shows
  "dom (compute_metrics lib (predictions, labels)) = {''f1_score'', ''precision'', ''recall''} \<and>
   compute_metrics lib (predictions, labels) ''f1_score'' =
     Some (f1_score lib labels (map (argmax lib) predictions) ''macro'') \<and>
   compute_metrics lib (predictions, labels) ''precision'' =
     Some (precision_score lib labels (map (argmax lib) predictions) ''macro'') \<and>
   compute_metrics lib (predictions, labels) ''recall'' =
     Some (recall_score lib labels (map (argmax lib) predictions) ''macro'')"
proof -
  let ?m = "compute_metrics lib (predictions, labels)"
  let ?preds = "map (argmax lib) predictions"
  have m: "?m = [''f1_score'' \<mapsto> f1_score lib labels ?preds ''macro'',
                ''precision'' \<mapsto> precision_score lib labels ?preds ''macro'',
                ''recall'' \<mapsto> recall_score lib labels ?preds ''macro'']"
    by (simp add: compute_metrics_def Let_def)
  have "dom ?m = {''recall'', ''precision'', ''f1_score''}"
    unfolding m by (simp only: dom_fun_upd dom_empty option.distinct if_False)
  also have "\<dots> = {''f1_score'', ''precision'', ''recall''}"
    by (simp only: insert_commute)
  finally have d: "dom ?m = {''f1_score'', ''precision'', ''recall''}" .
  have f: "?m ''f1_score'' = Some (f1_score lib labels ?preds ''macro'')"
    unfolding m by simp
  have p: "?m ''precision'' = Some (precision_score lib labels ?preds ''macro'')"
    unfolding m by simp
  have r: "?m ''recall'' = Some (recall_score lib labels ?preds ''macro'')"
    unfolding m by simp
  from d f p r show ?thesis by (simp only: simp_thms)
qed

lemma select_range_take:
  "n \<le> length xs \<Longrightarrow> (select_range n xs :: 'e py_error + 'a list) = Inr (take n xs)"
proof -
  assume n: "n \<le> length xs"
  have "map (\<lambda>i. xs ! i) [0 ..< n] = take n xs"
    using n by (intro nth_equalityI) simp_all
  with n show ?thesis by (simp add: select_range_def)
qed

lemma downsample_take:
  assumes "tokenized_datasets ''train'' = Some train_split"
    and "tokenized_datasets ''validation_matched'' = Some validation_split"
    and "50000 \<le> length train_split" and "4000 \<le> length validation_split"
  shows "(downsample tokenized_datasets :: 'e py_error + ('r list \<times> 'r list)) =
           Inr (take 50000 train_split, take 4000 validation_split)"
  using assms by (simp add: downsample_def subscript_def select_range_take)

text \<open>
  Claim C9. When the train split has at least 50,000 examples and the
  \<open>validation_matched\<close> split at least 4,000, the trainer for fine-tuning is constructed
  with exactly the first 50,000 tokenized train examples as its train set and the first
  4,000 tokenized \<open>validation_matched\<close> examples as its eval set, both in the original
  order; the baseline trainer has the same eval set and no train set.
\<close>

theorem trainer_datasets_are_prefixes:
  fixes dataset :: "string \<rightharpoonup> example list"
  assumes "dataset ''train'' = Some train_split"
    and "dataset ''validation_matched'' = Some validation_split"
    and "50000 \<le> length train_split" and "4000 \<le> length validation_split"
  shows "\<exists>base peft.
     (notebook_trainers (tokenize_datasets tokenizer dataset)
        :: 'e py_error + ('t tokenized_example trainer \<times> 't tokenized_example trainer)) =
       Inr (base, peft) \<and>
     train_dataset peft = Some (take 50000 (preprocess_function tokenizer train_split)) \<and>
     eval_dataset peft = Some (take 4000 (preprocess_function tokenizer validation_split)) \<and>
     train_dataset base = None \<and>
     eval_dataset base = Some (take 4000 (preprocess_function tokenizer validation_split)) \<and>
     length (take 50000 (preprocess_function tokenizer train_split)) = 50000 \<and>
     length (take 4000 (preprocess_function tokenizer validation_split)) = 4000"
proof -
  let ?tok = "tokenize_datasets tokenizer dataset"
  have tr: "?tok ''train'' = Some (preprocess_function tokenizer train_split)"
    and va: "?tok ''validation_matched'' = Some (preprocess_function tokenizer validation_split)"
    using assms(1,2) by (simp_all add: tokenize_datasets_def)
  have ltr: "50000 \<le> length (preprocess_function tokenizer train_split)"
    and lva: "4000 \<le> length (preprocess_function tokenizer validation_split)"
    using assms(3,4) by (simp_all add: preprocess_function_def)
  have "(downsample ?tok :: 'e py_error + _) =
      Inr (take 50000 (preprocess_function tokenizer train_split),
           take 4000 (preprocess_function tokenizer validation_split))"
    by (rule downsample_take [OF tr va ltr lva])
  then show ?thesis
    using ltr lva by (simp add: notebook_trainers_def trainer_base_def peft_trainer_def)
qed

text \<open>On the sample dataset, whose train split has 50,001 rows.\<close>

theorem trainer_datasets_are_prefixes_witness:
  "\<exists>base peft.
     (notebook_trainers (tokenize_datasets (\<lambda>p h. p @ h) sample_dataset)
        :: unit py_error + (string tokenized_example trainer \<times> string tokenized_example trainer)) =
       Inr (base, peft) \<and>
     train_dataset peft = Some (replicate 50000 \<lparr>encoding = ''ph'', labels = 1\<rparr>) \<and>
     eval_dataset peft = Some (replicate 4000 \<lparr>encoding = ''qh'', labels = 0\<rparr>)"
proof -
  have a: "sample_dataset ''train'' =
      Some (replicate 50001 \<lparr>label = 1, premise = ''p'', hypothesis = ''h''\<rparr>)"
    by (simp add: sample_dataset_def)
  have b: "sample_dataset ''validation_matched'' =
      Some (replicate 4000 \<lparr>label = 0, premise = ''q'', hypothesis = ''h''\<rparr>)"
    by (simp add: sample_dataset_def)
  have c: "50000 \<le> length (replicate 50001 \<lparr>label = 1, premise = ''p'', hypothesis = ''h''\<rparr>)"
    by simp
  have d: "4000 \<le> length (replicate 4000 \<lparr>label = 0, premise = ''q'', hypothesis = ''h''\<rparr>)"
    by simp
  show ?thesis
    using trainer_datasets_are_prefixes [OF a b c d, of "\<lambda>p h. p @ h", where ?'e = unit]
    by (simp add: preprocess_function_def) blast
qed


subsection \<open>The sequence of library calls\<close>

lemma exec_trace:
  "exec raises effect calls events = Inr events' \<Longrightarrow>
   events' = events @ concat (map effect calls)"
proof (induction calls arbitrary: events)
  case Nil
  then show ?case by simp
next
  case (Cons call calls)
  from Cons.prems have "exec raises effect calls (events @ effect call) = Inr events'"
    by (simp split: option.splits)
  from Cons.IH [OF this] show ?case by simp
qed

lemma exec_no_raise:
  "(\<forall>events. \<forall>c \<in> set calls. raises events c = None) \<Longrightarrow>
   exec raises effect calls events = Inr (events @ concat (map effect calls))"
  by (induction calls arbitrary: events) simp_all

lemma exec_never_raises:
  "exec never_raises effect calls events = Inr (events @ concat (map effect calls))"
  by (rule exec_no_raise) (simp add: never_raises_def)



lemma map_filter_append:
  "List.map_filter f (xs @ ys) = List.map_filter f xs @ List.map_filter f ys"
  by (simp add: List.map_filter_def)

lemma calls_of_Inside: "List.map_filter call_of (map Inside xs) = []"
  by (induction xs) (simp_all add: List.map_filter_simps)

lemma calls_of_Call: "List.map_filter call_of (map Call xs) = xs"
  by (induction xs) (simp_all add: List.map_filter_simps)

lemma fine_tuning_events:
  "concat (map (events_of lib) (concat fine_tuning_cells)) = run_events lib"
  by (simp add: fine_tuning_cells_def run_events_def)

lemma fine_tuning_trace:
  "fine_tuning_notebook lib raises = Inr events \<Longrightarrow> events = run_events lib"
  unfolding fine_tuning_notebook_def
  by (drule exec_trace) (simp only: append_Nil fine_tuning_events)

lemma fine_tuning_never_raises:
  "fine_tuning_notebook lib never_raises = Inr (run_events lib)"
  unfolding fine_tuning_notebook_def
  by (simp only: exec_never_raises append_Nil fine_tuning_events)

lemma run_events_calls:
  "List.map_filter call_of (run_events lib) = concat fine_tuning_cells"
proof -
  have "List.map_filter call_of (run_events lib) =
       [CudaIsAvailable, LoadDataset ''multi_nli'', LoadDataset ''multi_nli'',
        ShowOneExamplePerLabel ''train'' 550,
        TokenizerFromPretrained ''distilbert-base-uncased'', DatasetMap,
        Select ''train'' 50000, Select ''validation_matched'' 4000,
        ModelFromPretrained ''distilbert-base-uncased'' 3, CudaIsAvailable, TorchDevice,
        ModelTo, MakeTrainingArguments training_args_base,
        MakeTrainer training_args_base True,
        Evaluate training_args_base True,
        ModelParameters, MakeLoraConfig, GetPeftModel, CudaIsAvailable, TorchDevice, ModelTo,
        PrintTrainableParameters, MakeTrainingArguments training_args,
        MakeTrainer training_args True,
        Train training_args True,
        SavePretrained ''./peft_multi_nli'']"
    unfolding run_events_def
    by (simp only: map_filter_append calls_of_Inside calls_of_Call append_Nil append_Nil2
          List.map_filter_simps call_of.simps option.case append_Cons
          list.map(2) [symmetric])
  also have "\<dots> = concat fine_tuning_cells"
    by (simp add: fine_tuning_cells_def)
  finally show ?thesis .
qed

lemma run_events_phases:
  "ft_phases (run_events lib) =
     [DataLoading, Tokenization, ModelLoading, MetricComputation, AdapterInjection,
      TrainingLoop, CheckpointSave]"
  unfolding ft_phases_def run_events_calls
  by (simp add: fine_tuning_cells_def List.map_filter_simps)

lemma sample_evaluate_inside:
  "evaluate_inside sample_trainer_lib training_args_base True = [ComputeMetrics]"
  by (simp add: sample_trainer_lib_def)

lemma sample_metrics_before_adapter:
  "\<not> all_after (\<lambda>e. e = Inside ComputeMetrics) (\<lambda>e. e = Call GetPeftModel)
      (run_events sample_trainer_lib)"
proof -
  let ?events = "run_events sample_trainer_lib"
  obtain rest where e: "?events =
     map Call
       [CudaIsAvailable, LoadDataset ''multi_nli'', LoadDataset ''multi_nli'',
        ShowOneExamplePerLabel ''train'' 550,
        TokenizerFromPretrained ''distilbert-base-uncased'', DatasetMap,
        Select ''train'' 50000, Select ''validation_matched'' 4000,
        ModelFromPretrained ''distilbert-base-uncased'' 3, CudaIsAvailable, TorchDevice,
        ModelTo, MakeTrainingArguments training_args_base,
        MakeTrainer training_args_base True] @
     [Call (Evaluate training_args_base True), Inside ComputeMetrics,
      Call ModelParameters, Call MakeLoraConfig, Call GetPeftModel] @ rest"
    unfolding run_events_def sample_evaluate_inside by simp
  have m: "?events ! 15 = Inside ComputeMetrics" and g: "?events ! 18 = Call GetPeftModel"
    unfolding e by (simp_all add: nth_append)
  have l: "15 < length ?events" "18 < length ?events"
    unfolding e by simp_all
  show ?thesis
  proof
    assume "all_after (\<lambda>e. e = Inside ComputeMetrics) (\<lambda>e. e = Call GetPeftModel) ?events"
    then have "?events ! 15 = Inside ComputeMetrics \<and> ?events ! 18 = Call GetPeftModel \<longrightarrow>
        (18::nat) < 15"
      unfolding all_after_def using l by blast
    with m g show False by simp
  qed
qed

lemma run_events_split:
  "\<exists>before after.
     run_events lib = before @ Call (Train training_args True) # after \<and>
     Call (Evaluate training_args_base True) \<in> set before \<and>
     Call GetPeftModel \<in> set before \<and>
     (\<forall>a metrics. Call (Evaluate a metrics) \<notin> set after)"
proof -
  let ?before = "map Call
       [CudaIsAvailable, LoadDataset ''multi_nli'', LoadDataset ''multi_nli'',
        ShowOneExamplePerLabel ''train'' 550,
        TokenizerFromPretrained ''distilbert-base-uncased'', DatasetMap,
        Select ''train'' 50000, Select ''validation_matched'' 4000,
        ModelFromPretrained ''distilbert-base-uncased'' 3, CudaIsAvailable, TorchDevice,
        ModelTo, MakeTrainingArguments training_args_base,
        MakeTrainer training_args_base True] @
     Call (Evaluate training_args_base True) #
     map Inside (evaluate_inside lib training_args_base True) @
     map Call
       [ModelParameters, MakeLoraConfig, GetPeftModel, CudaIsAvailable, TorchDevice, ModelTo,
        PrintTrainableParameters, MakeTrainingArguments training_args,
        MakeTrainer training_args True]"
  let ?after = "map Inside (train_inside lib training_args True) @
     [Call (SavePretrained ''./peft_multi_nli'')]"
  have 1: "run_events lib = ?before @ Call (Train training_args True) # ?after"
    unfolding run_events_def by (simp only: append_assoc append_Cons)
  have 2: "Call (Evaluate training_args_base True) \<in> set ?before"
    by simp
  have 3: "Call GetPeftModel \<in> set ?before"
    by simp
  have 4: "\<forall>a metrics. Call (Evaluate a metrics) \<notin> set ?after"
    by auto
  show ?thesis
    by (rule exI [of _ ?before], rule exI [of _ ?after]) (rule conjI [OF 1 conjI [OF 2 conjI [OF 3 4]]])
qed

lemma nth_after_prefix: "length xs = n \<Longrightarrow> (xs @ x # ys) ! n = x"
  by auto

lemma evaluate_before_train:
  "\<not> all_after (\<lambda>e. e = Call (Evaluate training_args_base True))
      (\<lambda>e. e = Call (Train training_args True)) (run_events lib)"
proof -
  let ?events = "run_events lib"
  let ?mid = "map Inside (evaluate_inside lib training_args_base True) @
     map Call
       [ModelParameters, MakeLoraConfig, GetPeftModel, CudaIsAvailable, TorchDevice, ModelTo,
        PrintTrainableParameters, MakeTrainingArguments training_args,
        MakeTrainer training_args True]"
  let ?pre = "map Call
       [CudaIsAvailable, LoadDataset ''multi_nli'', LoadDataset ''multi_nli'',
        ShowOneExamplePerLabel ''train'' 550,
        TokenizerFromPretrained ''distilbert-base-uncased'', DatasetMap,
        Select ''train'' 50000, Select ''validation_matched'' 4000,
        ModelFromPretrained ''distilbert-base-uncased'' 3, CudaIsAvailable, TorchDevice,
        ModelTo, MakeTrainingArguments training_args_base,
        MakeTrainer training_args_base True]"
  let ?post = "map Inside (train_inside lib training_args True) @
     [Call (SavePretrained ''./peft_multi_nli'')]"
  have e: "?events = ?pre @ Call (Evaluate training_args_base True) #
      ?mid @ Call (Train training_args True) # ?post"
    unfolding run_events_def by (simp only: append_assoc append_Cons)
  have lp: "length ?pre = 14" by simp
  have i: "?events ! 14 = Call (Evaluate training_args_base True)"
    unfolding e by (rule nth_after_prefix [OF lp])
  have j: "?events ! (15 + length ?mid) = Call (Train training_args True)"
  proof -
    have "?events = (?pre @ Call (Evaluate training_args_base True) # ?mid) @
        Call (Train training_args True) # ?post"
      unfolding e by (simp only: append_assoc append_Cons)
    moreover have "length (?pre @ Call (Evaluate training_args_base True) # ?mid) =
        15 + length ?mid"
      by simp
    ultimately show ?thesis
      by (simp only: nth_after_prefix)
  qed
  have li: "14 < length ?events"
    unfolding e by simp
  have lj: "15 + length ?mid < length ?events"
    unfolding e by simp
  show ?thesis
  proof
    assume "all_after (\<lambda>e. e = Call (Evaluate training_args_base True))
      (\<lambda>e. e = Call (Train training_args True)) ?events"
    then have "?events ! 14 = Call (Evaluate training_args_base True) \<and>
        ?events ! (15 + length ?mid) = Call (Train training_args True) \<longrightarrow>
        15 + length ?mid < 14"
      unfolding all_after_def using li lj by blast
    with i j show False by simp
  qed
qed

section \<open>Properties of the chatbot notebook\<close>

lemma lib_call_Inr: "lib_call r = Inr v \<longleftrightarrow> r = Inr v"
  by (cases r) (simp_all add: lib_call_def)


lemma log_event_simps:
  "trace (log_event ev s) = trace s @ [ev]"
  "default_chat_history (log_event ev s) = default_chat_history s"
  by (simp_all add: log_event_def)

lemma chatbot_without_customization_Inr:
  assumes "chatbot_without_customization lib api_key question s = Inr (answer, s')"
  shows "\<exists>client content rest.
      OpenAI lib api_key api_base = Inr client \<and>
      completions_create lib client ''gpt-3.5-turbo'' [(''user'', question)] 150 =
        Inr (Some content # rest) \<and>
      answer = strip lib content \<and>
      trace s' = trace s @ [NewClient client, ChatCompletion client question] \<and>
      default_chat_history s' = default_chat_history s"
  using assms unfolding chatbot_without_customization_def
  by (auto split: sum.splits list.splits option.splits simp: lib_call_Inr log_event_simps)


lemma chatbot_with_langchain_Inr:
  assumes "chatbot_with_langchain lib g question chat_history s = Inr (answer, s')"
  shows "\<exists>qa_chain result.
      from_llm lib (chat_model g) (retriever g) = Inr qa_chain \<and>
      invoke lib qa_chain
        \<lparr>input_question = question,
         input_chat_history =
           (case chat_history of None \<Rightarrow> default_chat_history s | Some h \<Rightarrow> h)\<rparr> = Inr result \<and>
      result ''answer'' = Some answer \<and>
      trace s' = trace s @
        [BuildChain (chat_model g) (retriever g) qa_chain,
         InvokeChain qa_chain
           \<lparr>input_question = question,
            input_chat_history =
              (case chat_history of None \<Rightarrow> default_chat_history s | Some h \<Rightarrow> h)\<rparr>] \<and>
      default_chat_history s' = default_chat_history s"
  using assms unfolding chatbot_with_langchain_def Let_def subscript_def
  by (auto split: sum.splits option.splits simp: lib_call_Inr log_event_simps)


lemma consumes_earlier_append:
  "consumes_earlier A (xs @ ys) \<longleftrightarrow>
     consumes_earlier A xs \<and> consumes_earlier (A \<union> (\<Union>ev \<in> set xs. set (produced ev))) ys"
proof (induction xs arbitrary: A)
  case Nil
  show ?case by simp
next
  case (Cons ev xs)
  have "A \<union> set (produced ev) \<union> (\<Union>ev \<in> set xs. set (produced ev)) =
        A \<union> (\<Union>ev \<in> set (ev # xs). set (produced ev))"
    by (simp only: list.set UN_insert Un_assoc)
  with Cons.IH [of "A \<union> set (produced ev)"] show ?case
    by (simp only: append_Cons consumes_earlier.simps conj_assoc)
qed

lemma question_loop_Inr:
  assumes "question_loop lib api_key g qs s = Inr s'"
  shows "default_chat_history s' = default_chat_history s \<and>
    (\<exists>new. trace s' = trace s @ new \<and>
       List.map_filter cb_phase_of new = concat (replicate (length qs) per_question_phases) \<and>
       (\<forall>A. Object (chat_model g) \<in> A \<and> Object (retriever g) \<in> A \<longrightarrow>
            consumes_earlier A new))"
  using assms
proof (induction qs arbitrary: s)
  case Nil
  then show ?case by (simp add: List.map_filter_simps)
next
  case (Cons q qs)
  let ?s2 = "log_event (Print ''Answer WITHOUT customization:'')
               (log_event (Print (''Question: '' @ q @ [CHR 0x0A])) s)"
  from Cons.prems obtain answer s3 where
    w: "chatbot_without_customization lib api_key q ?s2 = Inr (answer, s3)"
    by (auto simp: Let_def split: sum.splits)
  let ?s6 = "log_event (Print ''Answer WITH LangChain RAG customization:'')
               (log_event (Print ''---'') (log_event (Print answer) s3))"
  from Cons.prems w obtain rag_answer s7 where
    l: "chatbot_with_langchain lib g q None ?s6 = Inr (rag_answer, s7)"
    by (auto simp: Let_def split: sum.splits)
  let ?s9 = "log_event (Print (replicate 80 CHR ''='' @ [CHR 0x0A]))
               (log_event (Print rag_answer) s7)"
  from Cons.prems w l have rest: "question_loop lib api_key g qs ?s9 = Inr s'"
    by (simp add: Let_def)
  from chatbot_without_customization_Inr [OF w] obtain client where
    t3: "trace s3 = trace ?s2 @ [NewClient client, ChatCompletion client q]"
    and d3: "default_chat_history s3 = default_chat_history ?s2"
    by blast
  from chatbot_with_langchain_Inr [OF l] obtain qa_chain submitted where
    t7: "trace s7 = trace ?s6 @
           [BuildChain (chat_model g) (retriever g) qa_chain, InvokeChain qa_chain submitted]"
    and d7: "default_chat_history s7 = default_chat_history ?s6"
    by blast
  let ?new = "[Print (''Question: '' @ q @ [CHR 0x0A]), Print ''Answer WITHOUT customization:'',
      NewClient client, ChatCompletion client q, Print answer, Print ''---'',
      Print ''Answer WITH LangChain RAG customization:'',
      BuildChain (chat_model g) (retriever g) qa_chain, InvokeChain qa_chain submitted,
      Print rag_answer, Print (replicate 80 CHR ''='' @ [CHR 0x0A])]"
  have t9: "trace ?s9 = trace s @ ?new"
    by (simp add: log_event_simps t3 t7)
  have d9: "default_chat_history ?s9 = default_chat_history s"
    by (simp add: log_event_simps d3 d7)
  from Cons.IH [OF rest] obtain new where
    d: "default_chat_history s' = default_chat_history ?s9"
    and t: "trace s' = trace ?s9 @ new"
    and p: "List.map_filter cb_phase_of new = concat (replicate (length qs) per_question_phases)"
    and c: "\<forall>A. Object (chat_model g) \<in> A \<and> Object (retriever g) \<in> A \<longrightarrow>
            consumes_earlier A new"
    by blast
  have p1: "List.map_filter cb_phase_of ?new = per_question_phases"
    by (simp add: List.map_filter_simps per_question_phases_def)
  have c1: "consumes_earlier A (?new @ new)"
    if "Object (chat_model g) \<in> A \<and> Object (retriever g) \<in> A" for A
    using that c by (simp add: consumes_earlier_append)
  have "trace s' = trace s @ (?new @ new)"
    using t t9 by simp
  moreover have "List.map_filter cb_phase_of (?new @ new) =
      concat (replicate (length (q # qs)) per_question_phases)"
    using p p1 by (simp add: List.map_filter_def)
  moreover have "default_chat_history s' = default_chat_history s"
    using d d9 by simp
  ultimately show ?case
    using c1 by blast
qed

lemma chatbot_setup_Inr:
  assumes "chatbot_setup lib api_key = Inr (g, s)"
  shows "\<exists>csv embeddings vectorstore qa_chain.
      read_csv lib ''data/character_descriptions.csv'' = Inr csv \<and>
      trace s =
        [ReadCsv ''data/character_descriptions.csv'' csv,
         ConcatText csv (add_text_column csv),
         DisplayHead (add_text_column csv),
         DisplayShape (add_text_column csv),
         LoadDocuments (add_text_column csv) (DataFrameLoader_load (add_text_column csv)),
         NewEmbeddings embeddings,
         BuildVectorStore (DataFrameLoader_load (add_text_column csv)) embeddings vectorstore,
         NewChatModel (chat_model g),
         AsRetriever vectorstore (retriever g),
         BuildChain (chat_model g) (retriever g) qa_chain] \<and>
      default_chat_history s = []"
proof -
  let ?path = "''data/character_descriptions.csv''"
  from assms obtain csv where csv: "read_csv lib ?path = Inr csv"
    unfolding chatbot_setup_def Let_def
    by (cases "read_csv lib ?path") (simp_all add: lib_call_def)
  let ?docs = "DataFrameLoader_load (add_text_column csv)"
  from assms csv obtain embeddings where
    emb: "OpenAIEmbeddings lib api_key api_base = Inr embeddings"
    unfolding chatbot_setup_def Let_def
    by (cases "OpenAIEmbeddings lib api_key api_base") (simp_all add: lib_call_def)
  from assms csv emb obtain vectorstore where
    vs: "FAISS_from_documents lib ?docs embeddings = Inr vectorstore"
    unfolding chatbot_setup_def Let_def
    by (cases "FAISS_from_documents lib ?docs embeddings") (simp_all add: lib_call_def)
  from assms csv emb vs obtain llm where
    llm: "ChatOpenAI lib ''gpt-3.5-turbo'' api_key api_base = Inr llm"
    unfolding chatbot_setup_def Let_def
    by (cases "ChatOpenAI lib ''gpt-3.5-turbo'' api_key api_base") (simp_all add: lib_call_def)
  from assms csv emb vs llm obtain retr where
    retr: "as_retriever lib vectorstore = Inr retr"
    unfolding chatbot_setup_def Let_def
    by (cases "as_retriever lib vectorstore") (simp_all add: lib_call_def)
  from assms csv emb vs llm retr obtain qa_chain where
    ch: "from_llm lib llm retr = Inr qa_chain"
    unfolding chatbot_setup_def Let_def
    by (cases "from_llm lib llm retr") (simp_all add: lib_call_def)
  from assms csv emb vs llm retr ch
  have g: "g = \<lparr>chat_model = llm, retriever = retr\<rparr>"
    and s: "s = log_event (BuildChain llm retr qa_chain)
                 (log_event (AsRetriever vectorstore retr)
                   (log_event (NewChatModel llm)
                     (log_event (BuildVectorStore ?docs embeddings vectorstore)
                       (log_event (NewEmbeddings embeddings)
                         (log_event (LoadDocuments (add_text_column csv) ?docs)
                           (log_event (DisplayShape (add_text_column csv))
                             (log_event (DisplayHead (add_text_column csv))
                               (log_event (ConcatText csv (add_text_column csv))
                                 (log_event (ReadCsv ?path csv)
                                   \<lparr>trace = [], default_chat_history = []\<rparr>)))))))))"
    unfolding chatbot_setup_def Let_def by (simp_all add: lib_call_def)
  show ?thesis
    using csv by (intro exI [of _ csv] exI [of _ embeddings] exI [of _ vectorstore]
        exI [of _ qa_chain]) (simp add: g s log_event_simps)
qed

lemma chatbot_notebook_Inr:
  assumes "chatbot_notebook lib api_key = Inr s"
  shows "\<exists>csv embeddings vectorstore.
      read_csv lib ''data/character_descriptions.csv'' = Inr csv \<and>
      BuildVectorStore (DataFrameLoader_load (add_text_column csv)) embeddings vectorstore
        \<in> set (trace s) \<and>
      List.map_filter cb_phase_of (trace s) =
        [CsvLoad, TextConcatenation, EmbeddingGeneration, VectorStoreConstruction,
         RetrievalChainConstruction, RetrievalChainConstruction, RetrievalChainConstruction] @
        concat (replicate 3 per_question_phases) \<and>
      consumes_earlier {} (trace s) \<and>
      default_chat_history s = []"
proof -
  from assms obtain g s0 where
    su: "chatbot_setup lib api_key = Inr (g, s0)"
    and loop: "question_loop lib api_key g questions s0 = Inr s"
    unfolding chatbot_notebook_def by (auto split: sum.splits)
  from chatbot_setup_Inr [OF su] obtain csv embeddings vectorstore qa_chain where
    csv: "read_csv lib ''data/character_descriptions.csv'' = Inr csv"
    and t0: "trace s0 =
        [ReadCsv ''data/character_descriptions.csv'' csv,
         ConcatText csv (add_text_column csv),
         DisplayHead (add_text_column csv),
         DisplayShape (add_text_column csv),
         LoadDocuments (add_text_column csv) (DataFrameLoader_load (add_text_column csv)),
         NewEmbeddings embeddings,
         BuildVectorStore (DataFrameLoader_load (add_text_column csv)) embeddings vectorstore,
         NewChatModel (chat_model g),
         AsRetriever vectorstore (retriever g),
         BuildChain (chat_model g) (retriever g) qa_chain]"
    and d0: "default_chat_history s0 = []"
    by blast
  from question_loop_Inr [OF loop] obtain new where
    d: "default_chat_history s = default_chat_history s0"
    and t: "trace s = trace s0 @ new"
    and p: "List.map_filter cb_phase_of new =
              concat (replicate (length questions) per_question_phases)"
    and c: "\<forall>A. Object (chat_model g) \<in> A \<and> Object (retriever g) \<in> A \<longrightarrow>
              consumes_earlier A new"
    by blast
  have len: "length questions = 3" by (simp add: questions_def)
  have p0: "List.map_filter cb_phase_of (trace s0) =
      [CsvLoad, TextConcatenation, EmbeddingGeneration, VectorStoreConstruction,
       RetrievalChainConstruction, RetrievalChainConstruction, RetrievalChainConstruction]"
    unfolding t0 by (simp add: List.map_filter_simps)
  have phases: "List.map_filter cb_phase_of (trace s) =
      [CsvLoad, TextConcatenation, EmbeddingGeneration, VectorStoreConstruction,
       RetrievalChainConstruction, RetrievalChainConstruction, RetrievalChainConstruction] @
      concat (replicate 3 per_question_phases)"
    using p p0 len unfolding t List.map_filter_def by simp
  have flows: "consumes_earlier {} (trace s)"
    unfolding t consumes_earlier_append
  proof
    show "consumes_earlier {} (trace s0)"
      unfolding t0 by simp
    show "consumes_earlier ({} \<union> (\<Union>ev \<in> set (trace s0). set (produced ev))) new"
      using c unfolding t0 by simp
  qed
  have built: "BuildVectorStore (DataFrameLoader_load (add_text_column csv)) embeddings
      vectorstore \<in> set (trace s)"
    unfolding t t0 by simp
  from csv built phases flows d d0 show ?thesis by auto
qed

lemma cb_phases_explicit:
  "remdups_adj
     ([CsvLoad, TextConcatenation, EmbeddingGeneration, VectorStoreConstruction,
       RetrievalChainConstruction, RetrievalChainConstruction, RetrievalChainConstruction] @
      concat (replicate 3 per_question_phases)) =
   [CsvLoad, TextConcatenation, EmbeddingGeneration, VectorStoreConstruction,
    RetrievalChainConstruction] @
   concat (replicate 3
     [PrintedComparison, QuestionAnswering, PrintedComparison,
      RetrievalChainConstruction, QuestionAnswering]) @
   [PrintedComparison]"
  by (simp add: per_question_phases_def numeral_eq_Suc)

lemma sample_setup:
  "\<exists>s. chatbot_setup sample_lib None = Inr (\<lparr>chat_model = 3, retriever = 4\<rparr>, s)"
  by (simp add: chatbot_setup_def sample_lib_def lib_call_def Let_def)

lemma sample_without:
  "chatbot_without_customization sample_lib None q s =
     Inr (''generic'', log_event (ChatCompletion 6 q) (log_event (NewClient 6) s))"
  by (simp add: chatbot_without_customization_def sample_lib_def lib_call_def)

lemma sample_with:
  "\<exists>s'. chatbot_with_langchain sample_lib \<lparr>chat_model = 3, retriever = 4\<rparr> q None s =
     Inr (''grounded'', s')"
  by (simp add: chatbot_with_langchain_def sample_lib_def lib_call_def subscript_def Let_def)

lemma sample_loop:
  "\<exists>s'. question_loop sample_lib None \<lparr>chat_model = 3, retriever = 4\<rparr> qs s = Inr s'"
proof (induction qs arbitrary: s)
  case Nil
  show ?case by simp
next
  case (Cons q qs)
  let ?s2 = "log_event (Print ''Answer WITHOUT customization:'')
               (log_event (Print (''Question: '' @ q @ [CHR 0x0A])) s)"
  let ?s3 = "log_event (ChatCompletion 6 q) (log_event (NewClient 6) ?s2)"
  let ?s6 = "log_event (Print ''Answer WITH LangChain RAG customization:'')
               (log_event (Print ''---'') (log_event (Print ''generic'') ?s3))"
  obtain s7 where w: "chatbot_with_langchain sample_lib \<lparr>chat_model = 3, retriever = 4\<rparr> q None ?s6 =
     Inr (''grounded'', s7)"
    using sample_with by blast
  from Cons.IH obtain s' where
    "question_loop sample_lib None \<lparr>chat_model = 3, retriever = 4\<rparr> qs
       (log_event (Print (replicate 80 CHR ''='' @ [CHR 0x0A]))
          (log_event (Print ''grounded'') s7)) = Inr s'"
    by blast
  then show ?case
    using w by (simp add: sample_without Let_def)
qed

lemma sample_run: "\<exists>s. chatbot_notebook sample_lib None = Inr s"
proof -
  from sample_setup obtain s0 where
    "chatbot_setup sample_lib None = Inr (\<lparr>chat_model = 3, retriever = 4\<rparr>, s0)"
    by blast
  moreover from sample_loop obtain s where
    "question_loop sample_lib None \<lparr>chat_model = 3, retriever = 4\<rparr> questions s0 = Inr s"
    by blast
  ultimately show ?thesis by (simp add: chatbot_notebook_def)
qed

subsection \<open>Exceptions\<close>



















subsection \<open>Calls after earlier calls\<close>

lemma run_calls_default:
  "default_chat_history (run_calls lib g calls s) = default_chat_history s"
proof (induction calls arbitrary: s)
  case Nil
  show ?case by simp
next
  case (Cons c calls)
  obtain question chat_history where c: "c = (question, chat_history)"
    by (cases c)
  show ?case
  proof (cases "chatbot_with_langchain lib g question chat_history s")
    case (Inl e)
    then show ?thesis using Cons.IH [of s] c by simp
  next
    case (Inr r)
    obtain answer s' where r: "r = (answer, s')" by (cases r)
    from chatbot_with_langchain_Inr [OF Inr [unfolded r]]
    have "default_chat_history s' = default_chat_history s" by blast
    with Cons.IH [of s'] Inr r c show ?thesis by simp
  qed
qed

lemma chatbot_with_langchain_after_calls:
  assumes "default_chat_history s0 = []"
    and "s = run_calls lib g earlier s0"
    and "chatbot_with_langchain lib g question chat_history s = Inr (answer, s')"
  shows "\<exists>qa_chain.
      from_llm lib (chat_model g) (retriever g) = Inr qa_chain \<and>
      trace s' = trace s @
        [BuildChain (chat_model g) (retriever g) qa_chain,
         InvokeChain qa_chain
           \<lparr>input_question = question,
            input_chat_history = (case chat_history of None \<Rightarrow> [] | Some h \<Rightarrow> h)\<rparr>] \<and>
      default_chat_history s' = []"
proof -
  have d: "default_chat_history s = []"
    using assms(1,2) by (simp add: run_calls_default)
  from chatbot_with_langchain_Inr [OF assms(3)] show ?thesis
    unfolding d by blast
qed

lemma sample_with_trace:
  "chatbot_with_langchain sample_lib \<lparr>chat_model = 3, retriever = 4\<rparr> q h s =
     Inr (''grounded'',
       log_event (InvokeChain 5
           \<lparr>input_question = q,
            input_chat_history = (case h of None \<Rightarrow> default_chat_history s | Some x \<Rightarrow> x)\<rparr>)
         (log_event (BuildChain 3 4 5) s))"
  by (simp add: chatbot_with_langchain_def sample_lib_def lib_call_def subscript_def Let_def)

section \<open>Order of the steps\<close>

text \<open>
  Claim C4, as the notebook has it. For every trainer library, a run that completes
  consists of exactly these calls, in this order: data loading, tokenization, the
  downsampling, model loading, the construction of the baseline trainer and its
  \<open>evaluate()\<close>, which is the metric computation on the pretrained model and comes
  before adapter injection; then \<open>get_peft_model\<close>, the construction of the second
  trainer, \<open>trainer.train()\<close>, and \<open>save_pretrained\<close>. What the trainer does inside
  \<open>evaluate()\<close> and inside \<open>train()\<close>, metric computations included, is the library's
  and lies between that call and the next. The notebook calls no evaluation after
  \<open>train()\<close>.
\<close>

theorem fine_tuning_order:
  assumes "fine_tuning_notebook lib raises = Inr events"
  shows "events =
      map Call
        [CudaIsAvailable, LoadDataset ''multi_nli'', LoadDataset ''multi_nli'',
         ShowOneExamplePerLabel ''train'' 550,
         TokenizerFromPretrained ''distilbert-base-uncased'', DatasetMap,
         Select ''train'' 50000, Select ''validation_matched'' 4000,
         ModelFromPretrained ''distilbert-base-uncased'' 3, CudaIsAvailable, TorchDevice,
         ModelTo, MakeTrainingArguments training_args_base,
         MakeTrainer training_args_base True] @
      Call (Evaluate training_args_base True) #
      map Inside (evaluate_inside lib training_args_base True) @
      map Call
        [ModelParameters, MakeLoraConfig, GetPeftModel, CudaIsAvailable, TorchDevice, ModelTo,
         PrintTrainableParameters, MakeTrainingArguments training_args,
         MakeTrainer training_args True] @
      Call (Train training_args True) #
      map Inside (train_inside lib training_args True) @
      [Call (SavePretrained ''./peft_multi_nli'')] \<and>
    ft_phases events =
      [DataLoading, Tokenization, ModelLoading, MetricComputation, AdapterInjection,
       TrainingLoop, CheckpointSave] \<and>
    (\<exists>before after.
       events = before @ Call (Train training_args True) # after \<and>
       Call (Evaluate training_args_base True) \<in> set before \<and>
       Call GetPeftModel \<in> set before \<and>
       (\<forall>a metrics. Call (Evaluate a metrics) \<notin> set after))"
proof -
  have e: "events = run_events lib"
    using assms by (rule fine_tuning_trace)
  show ?thesis
    unfolding e
    by (intro conjI run_events_def run_events_phases run_events_split)
qed

text \<open>The run in which no library call raises, with the sample trainer.\<close>

theorem fine_tuning_order_witness:
  "\<exists>events. fine_tuning_notebook sample_trainer_lib never_raises = Inr events \<and>
     ft_phases events =
       [DataLoading, Tokenization, ModelLoading, MetricComputation, AdapterInjection,
        TrainingLoop, CheckpointSave] \<and>
     (\<exists>before after.
        events = before @ Call (Train training_args True) # after \<and>
        Call (Evaluate training_args_base True) \<in> set before \<and>
        Call GetPeftModel \<in> set before \<and>
        (\<forall>a metrics. Call (Evaluate a metrics) \<notin> set after))"
proof -
  note r = fine_tuning_never_raises [of sample_trainer_lib]
  note t = fine_tuning_order [OF r]
  show ?thesis
    by (rule exI [of _ "run_events sample_trainer_lib"])
       (rule conjI [OF r conjunct2 [OF t]])
qed

text \<open>
  The order claimed in C4 is not the notebook's: the metric computation of
  \<open>trainer_base.evaluate()\<close> comes before \<open>get_peft_model\<close> and before the training
  loop, and the notebook evaluates nothing after the training loop.
\<close>

theorem fine_tuning_order_counterexample:
  "fine_tuning_notebook sample_trainer_lib never_raises =
     Inr (run_events sample_trainer_lib) \<and>
   ft_phases (run_events sample_trainer_lib) \<noteq>
     [DataLoading, Tokenization, ModelLoading, AdapterInjection, TrainingLoop,
      MetricComputation, CheckpointSave] \<and>
   \<not> all_after (\<lambda>e. e = Inside ComputeMetrics) (\<lambda>e. e = Call GetPeftModel)
       (run_events sample_trainer_lib) \<and>
   \<not> all_after (\<lambda>e. e = Call (Evaluate training_args_base True))
       (\<lambda>e. e = Call (Train training_args True)) (run_events sample_trainer_lib)"
proof (intro conjI)
  show "fine_tuning_notebook sample_trainer_lib never_raises =
     Inr (run_events sample_trainer_lib)"
    by (rule fine_tuning_never_raises)
  show "ft_phases (run_events sample_trainer_lib) \<noteq>
     [DataLoading, Tokenization, ModelLoading, AdapterInjection, TrainingLoop,
      MetricComputation, CheckpointSave]"
    unfolding run_events_phases by simp
  show "\<not> all_after (\<lambda>e. e = Inside ComputeMetrics) (\<lambda>e. e = Call GetPeftModel)
       (run_events sample_trainer_lib)"
    by (rule sample_metrics_before_adapter)
  show "\<not> all_after (\<lambda>e. e = Call (Evaluate training_args_base True))
       (\<lambda>e. e = Call (Train training_args True)) (run_events sample_trainer_lib)"
    by (rule evaluate_before_train)
qed

text \<open>
  Claim C5, as the notebook has it. A run that completes loads the CSV file,
  concatenates the text column, creates the embeddings object, builds the vector store
  and constructs the retrieval chain, once each and in this order; then, for each of the
  three questions in turn, it prints, asks the base model, prints its answer, constructs
  the retrieval chain again, asks it, and prints its answer. Every library call is given
  only objects and data that earlier steps of the same run returned.
\<close>

theorem chatbot_order:
  assumes "chatbot_notebook lib api_key = Inr s"
  shows "cb_phases (trace s) =
      [CsvLoad, TextConcatenation, EmbeddingGeneration, VectorStoreConstruction,
       RetrievalChainConstruction] @
      concat (replicate 3
        [PrintedComparison, QuestionAnswering, PrintedComparison,
         RetrievalChainConstruction, QuestionAnswering]) @
      [PrintedComparison] \<and>
    consumes_earlier {} (trace s)"
proof -
  from chatbot_notebook_Inr [OF assms] have
    p: "List.map_filter cb_phase_of (trace s) =
        [CsvLoad, TextConcatenation, EmbeddingGeneration, VectorStoreConstruction,
         RetrievalChainConstruction, RetrievalChainConstruction, RetrievalChainConstruction] @
        concat (replicate 3 per_question_phases)"
    and c: "consumes_earlier {} (trace s)"
    by blast+
  show ?thesis
    unfolding cb_phases_def p cb_phases_explicit using c by (simp only: simp_thms)
qed

text \<open>The run on the sample library.\<close>

theorem chatbot_order_witness:
  "\<exists>s. chatbot_notebook sample_lib None = Inr s \<and>
     cb_phases (trace s) =
      [CsvLoad, TextConcatenation, EmbeddingGeneration, VectorStoreConstruction,
       RetrievalChainConstruction] @
      concat (replicate 3
        [PrintedComparison, QuestionAnswering, PrintedComparison,
         RetrievalChainConstruction, QuestionAnswering]) @
      [PrintedComparison] \<and>
    consumes_earlier {} (trace s)"
proof -
  obtain s where s: "chatbot_notebook sample_lib None = Inr s"
    using sample_run by blast
  show ?thesis
    by (rule exI [of _ s]) (rule conjI [OF s chatbot_order [OF s]])
qed

text \<open>
  The order claimed in C5 is not the notebook's: printing is interleaved with the
  questions, and the chain is constructed again inside the loop.
\<close>

theorem chatbot_order_counterexample:
  "\<exists>s. chatbot_notebook sample_lib None = Inr s \<and>
     cb_phases (trace s) \<noteq>
      [CsvLoad, TextConcatenation, EmbeddingGeneration, VectorStoreConstruction,
       RetrievalChainConstruction, QuestionAnswering, PrintedComparison]"
proof -
  obtain s where s: "chatbot_notebook sample_lib None = Inr s"
    using sample_run by blast
  from chatbot_notebook_Inr [OF s] have
    p: "List.map_filter cb_phase_of (trace s) =
        [CsvLoad, TextConcatenation, EmbeddingGeneration, VectorStoreConstruction,
         RetrievalChainConstruction, RetrievalChainConstruction, RetrievalChainConstruction] @
        concat (replicate 3 per_question_phases)"
    by blast
  have n: "cb_phases (trace s) \<noteq>
      [CsvLoad, TextConcatenation, EmbeddingGeneration, VectorStoreConstruction,
       RetrievalChainConstruction, QuestionAnswering, PrintedComparison]"
    unfolding cb_phases_def p cb_phases_explicit by (simp add: numeral_eq_Suc)
  show ?thesis
    by (rule exI [of _ s]) (rule conjI [OF s n])
qed

text \<open>
  Claim C6. For every row of the data frame, the cell added in column \<open>text\<close> is the
  row's Name, \<open>": "\<close>, the Description, \<open>" ("\<close>, the Medium, \<open>", "\<close>, the Setting and
  \<open>")"\<close>, in this order, and it is the page content of the document loaded for that
  row; there is one document per row, in the order of the rows.
\<close>

theorem text_column_is_page_content:
  "length (add_text_column df) = length df \<and>
   length (DataFrameLoader_load (add_text_column df)) = length df \<and>
   (\<forall>i < length df.
      text (add_text_column df ! i) =
        Name (df ! i) @ '': '' @ Description (df ! i) @ '' ('' @ Medium (df ! i) @ '', '' @
        Setting (df ! i) @ '')'' \<and>
      page_content (DataFrameLoader_load (add_text_column df) ! i) =
        text (add_text_column df ! i))"
  by (simp add: add_text_column_def DataFrameLoader_load_def)

text \<open>The second row of the sample file.\<close>

theorem text_column_is_page_content_witness:
  "page_content (DataFrameLoader_load (add_text_column sample_csv) ! 1) =
     ''Jack: A businessman. (Play, England)''"
proof -
  have "(1::nat) < length sample_csv" by (simp add: sample_csv_def)
  with text_column_is_page_content [of sample_csv]
  have "page_content (DataFrameLoader_load (add_text_column sample_csv) ! 1) =
        Name (sample_csv ! 1) @ '': '' @ Description (sample_csv ! 1) @ '' ('' @
        Medium (sample_csv ! 1) @ '', '' @ Setting (sample_csv ! 1) @ '')''"
    by simp
  then show ?thesis by (simp add: sample_csv_def)
qed

section \<open>The state of the chatbot function\<close>

text \<open>
  Claim C10. Start from a state in which the default chat history is the empty list,
  and let any two sequences of calls of \<open>chatbot_with_langchain\<close> come first. Two
  further calls with the same question and the same chat history argument, one after
  each sequence, each construct a chain with \<open>from_llm\<close> and submit the same input to
  it: the question together with the given chat history, or the empty list when none
  is given. Both leave the default chat history empty.
\<close>

theorem chatbot_with_langchain_stateless:
  assumes "default_chat_history s0 = []"
    and "s1 = run_calls lib g earlier1 s0"
    and "s2 = run_calls lib g earlier2 s0"
    and "chatbot_with_langchain lib g question chat_history s1 = Inr (answer1, s1')"
    and "chatbot_with_langchain lib g question chat_history s2 = Inr (answer2, s2')"
  shows "\<exists>qa_chain.
      from_llm lib (chat_model g) (retriever g) = Inr qa_chain \<and>
      trace s1' = trace s1 @
        [BuildChain (chat_model g) (retriever g) qa_chain,
         InvokeChain qa_chain
           \<lparr>input_question = question,
            input_chat_history = (case chat_history of None \<Rightarrow> [] | Some h \<Rightarrow> h)\<rparr>] \<and>
      trace s2' = trace s2 @
        [BuildChain (chat_model g) (retriever g) qa_chain,
         InvokeChain qa_chain
           \<lparr>input_question = question,
            input_chat_history = (case chat_history of None \<Rightarrow> [] | Some h \<Rightarrow> h)\<rparr>] \<and>
      default_chat_history s1' = [] \<and> default_chat_history s2' = []"
proof -
  from chatbot_with_langchain_after_calls [OF assms(1,2,4)] obtain c1 where
    f1: "from_llm lib (chat_model g) (retriever g) = Inr c1"
    and t1: "trace s1' = trace s1 @
        [BuildChain (chat_model g) (retriever g) c1,
         InvokeChain c1
           \<lparr>input_question = question,
            input_chat_history = (case chat_history of None \<Rightarrow> [] | Some h \<Rightarrow> h)\<rparr>]"
    and d1: "default_chat_history s1' = []"
    by blast
  from chatbot_with_langchain_after_calls [OF assms(1,3,5)] obtain c2 where
    f2: "from_llm lib (chat_model g) (retriever g) = Inr c2"
    and t2: "trace s2' = trace s2 @
        [BuildChain (chat_model g) (retriever g) c2,
         InvokeChain c2
           \<lparr>input_question = question,
            input_chat_history = (case chat_history of None \<Rightarrow> [] | Some h \<Rightarrow> h)\<rparr>]"
    and d2: "default_chat_history s2' = []"
    by blast
  from f1 f2 have "c2 = c1" by simp
  with f1 t1 t2 d1 d2 show ?thesis by blast
qed

text \<open>
  On the sample library: a first call, and a third call after one call without and one
  with a history.
\<close>

theorem chatbot_with_langchain_stateless_witness:
  "\<exists>s2 s1' s2'.
     s2 = run_calls sample_lib \<lparr>chat_model = 3, retriever = 4\<rparr>
            [(''Who is Jack?'', None), (''And Alice?'', Some [(''Who is Jack?'', ''grounded'')])]
            \<lparr>trace = [], default_chat_history = []\<rparr> \<and>
     chatbot_with_langchain sample_lib \<lparr>chat_model = 3, retriever = 4\<rparr> ''Who is Alice?'' None
       \<lparr>trace = [], default_chat_history = []\<rparr> = Inr (''grounded'', s1') \<and>
     chatbot_with_langchain sample_lib \<lparr>chat_model = 3, retriever = 4\<rparr> ''Who is Alice?'' None s2 =
       Inr (''grounded'', s2') \<and>
     trace s1' =
        [BuildChain 3 4 5,
         InvokeChain 5 \<lparr>input_question = ''Who is Alice?'', input_chat_history = []\<rparr>] \<and>
     trace s2' = trace s2 @
        [BuildChain 3 4 5,
         InvokeChain 5 \<lparr>input_question = ''Who is Alice?'', input_chat_history = []\<rparr>]"
proof -
  let ?g = "\<lparr>chat_model = 3, retriever = 4\<rparr> :: nat chat_globals"
  let ?init = "\<lparr>trace = [], default_chat_history = []\<rparr> :: nat cb_state"
  let ?later = "run_calls sample_lib ?g
             [(''Who is Jack?'', None), (''And Alice?'', Some [(''Who is Jack?'', ''grounded'')])]
             ?init"
  obtain s1' where c1: "chatbot_with_langchain sample_lib ?g ''Who is Alice?'' None ?init =
       Inr (''grounded'', s1')"
    using sample_with_trace by blast
  obtain s2' where c2: "chatbot_with_langchain sample_lib ?g ''Who is Alice?'' None ?later =
       Inr (''grounded'', s2')"
    using sample_with_trace by blast
  have d: "default_chat_history ?init = []" by simp
  have e1: "?init = run_calls sample_lib ?g [] ?init" by simp
  have f: "from_llm sample_lib (chat_model ?g) (retriever ?g) = Inr 5"
    by (simp add: sample_lib_def)
  from chatbot_with_langchain_stateless [OF d e1 refl c1 c2] obtain qa_chain where
    q: "from_llm sample_lib (chat_model ?g) (retriever ?g) = Inr qa_chain"
    and t1: "trace s1' = trace ?init @
        [BuildChain (chat_model ?g) (retriever ?g) qa_chain,
         InvokeChain qa_chain
           \<lparr>input_question = ''Who is Alice?'',
            input_chat_history = (case None of None \<Rightarrow> [] | Some h \<Rightarrow> h)\<rparr>]"
    and t2: "trace s2' = trace ?later @
        [BuildChain (chat_model ?g) (retriever ?g) qa_chain,
         InvokeChain qa_chain
           \<lparr>input_question = ''Who is Alice?'',
            input_chat_history = (case None of None \<Rightarrow> [] | Some h \<Rightarrow> h)\<rparr>]"
    by blast
  from q f have "qa_chain = 5" by simp
  with t1 t2 have "trace s1' =
        [BuildChain 3 4 5,
         InvokeChain 5 \<lparr>input_question = ''Who is Alice?'', input_chat_history = []\<rparr>]"
    and "trace s2' = trace ?later @
        [BuildChain 3 4 5,
         InvokeChain 5 \<lparr>input_question = ''Who is Alice?'', input_chat_history = []\<rparr>]"
    by (simp_all del: run_calls.simps)
  with c1 c2 show ?thesis by blast
qed

section \<open>Exceptions and delegation\<close>






end
